theory Spec2Isabelle
  imports Main "HOL-Library.Char_ord" "HOL-Library.List_Lexorder"
begin

section \<open>Common values: errors, panics, log lines\<close>

text \<open>
  Go errors are values. The constructors keep apart the kinds of error value the three
  source files build or pass on: \<open>errors.New(msg)\<close> (\<open>ErrorString\<close>), an error handed back
  by a collaborator outside the three files (configuration, container runtime, cluster
  API, metadata store: \<open>External\<close>), the cluster API's "not found" (\<open>NotFound\<close>, the one
  \<open>k8sErrors.IsNotFound\<close> recognises), the wrappers of \<open>github.com/pkg/errors\<close>
  (\<open>Wrap\<close>, \<open>WithStack\<close>) and the sentinel \<open>cluster.ErrNoCluster\<close>.
\<close>

datatype error =
    ErrorString string
  | External string
  | NotFound string
  | Wrap error string
  | WithStack error
  | ErrNoCluster

text \<open>A Go function either returns or panics; a panic carries its message.\<close>

datatype 'a outcome = is_Panic: Panic string | Return (returned: 'a)

text \<open>
  A log line is the format string together with the arguments handed to the logger; the
  text is never formatted in the model, since no decision of the code depends on it.
\<close>

datatype logArg = S string | L "string list" | E error

type_synonym logEntry = "string \<times> logArg list"

section \<open>provision/docker/docker.go: the container lifecycle primitive\<close>

text \<open>
  A decoded JSON document, as \<open>encoding/json\<close> hands it to a Go \<open>interface{}\<close>: null,
  booleans, numbers (kept as their text), strings, arrays and objects. An object is kept
  as the list of its members in document order; a later member with the same key wins,
  as it does when the decoder fills a Go map.
\<close>

datatype json =
    JNull
  | JBool bool
  | JNumber string
  | JString string
  | JArray "json list"
  | JObject "(string \<times> json) list"

definition jsonIndex :: "(string \<times> json) list \<Rightarrow> string \<Rightarrow> json option" where
  "jsonIndex kvs k = map_of (rev kvs) k"

text \<open>
  What \<open>ip\<close> needs from outside the file: the configuration lookup
  \<open>config.GetString\<close>, the command executor behind \<open>runCmd\<close> (it yields the combined
  output and the error of the run) and the JSON grammar (\<open>None\<close> for a text that is not
  JSON). All three are parameters of the model.
\<close>

record dockerEnv =
  config_GetString :: "string \<Rightarrow> error + string"
  execute :: "string \<Rightarrow> string list \<Rightarrow> string \<times> error option"
  json_decode :: "string \<Rightarrow> json option"

record container =
  name :: string
  instanceId :: string

text \<open>\<open>runCmd\<close>: run the command, log it, return the output and the error.\<close>

definition runCmd :: "dockerEnv \<Rightarrow> string \<Rightarrow> string list \<Rightarrow> logEntry list \<times> string \<times> error option" where
  "runCmd env cmd args =
     (let (out, err) = execute env cmd args
      in ([(''running the cmd: %s with the args: %s'', [S cmd, L args])], out, err))"

text \<open>
  \<open>json.Unmarshal(data, &result)\<close> with \<open>result\<close> a nil \<open>map[string]interface{}\<close>: a text that
  is not JSON and a document that is not an object are errors; an object fills the map;
  the document \<open>null\<close> leaves the map nil without an error, and a nil map has no keys.
\<close>

definition unmarshalMap :: "dockerEnv \<Rightarrow> string \<Rightarrow> error + (string \<times> json) list" where
  "unmarshalMap env text =
     (case json_decode env text of
        None \<Rightarrow> Inl (External ''json: syntax error'')
      | Some (JObject kvs) \<Rightarrow> Inr kvs
      | Some JNull \<Rightarrow> Inr []
      | Some _ \<Rightarrow> Inl (External ''json: cannot unmarshal into Go value of type map[string]interface {}''))"

definition msgInspect :: string where
  "msgInspect = ''error(%s) trying to inspect docker instance(%s) to get ipaddress''"

definition msgParse :: string where
  "msgParse = ''error(%s) parsing json from docker when trying to get ipaddress''"

definition msgMissing :: string where
  "msgMissing = ''Error when getting container information. NetworkSettings is missing.''"

definition msgNoIp :: string where
  "msgNoIp = ''error: Can't get ipaddress...''"

text \<open>
  \<open>container.ip\<close>. The result pairs the log lines written with what the call did: a panic,
  or the returned pair \<open>(string, error)\<close> as a sum (\<open>Inl\<close> the error; the string is empty
  then). The two unchecked type assertions of the source are the two \<open>Panic\<close> branches.
\<close>

definition ip :: "dockerEnv \<Rightarrow> container \<Rightarrow> logEntry list \<times> (error + string) outcome" where
  "ip env c =
     (case config_GetString env ''docker:binary'' of
        Inl err \<Rightarrow> ([], Return (Inl err))
      | Inr docker \<Rightarrow>
          (let l1 = [(''Getting ipaddress to instance %s'', [S (instanceId c)])];
               (l2, instanceJson, err) = runCmd env docker [''inspect'', instanceId c]
           in case err of
                Some e \<Rightarrow> (l1 @ l2 @ [(msgInspect, [E e])], Return (Inl (ErrorString msgInspect)))
              | None \<Rightarrow>
                  (case unmarshalMap env instanceJson of
                     Inl e \<Rightarrow> (l1 @ l2 @ [(msgParse, [E e])], Return (Inl (ErrorString msgParse)))
                   | Inr result \<Rightarrow>
                       (case jsonIndex result ''NetworkSettings'' of
                          None \<Rightarrow> (l1 @ l2 @ [(msgMissing, [])], Return (Inl (ErrorString msgMissing)))
                        | Some JNull \<Rightarrow> (l1 @ l2 @ [(msgMissing, [])], Return (Inl (ErrorString msgMissing)))
                        | Some (JObject networkSettings) \<Rightarrow>
                            (case jsonIndex networkSettings ''IpAddress'' of
                               Some (JString instanceIp) \<Rightarrow>
                                 (if instanceIp = ''''
                                  then (l1 @ l2 @ [(msgNoIp, [])], Return (Inl (ErrorString msgNoIp)))
                                  else (l1 @ l2 @ [(''Instance IpAddress: %s'', [S instanceIp])],
                                        Return (Inr instanceIp)))
                             | _ \<Rightarrow> (l1 @ l2, Panic ''interface conversion: interface {} is not string''))
                        | Some _ \<Rightarrow>
                            (l1 @ l2,
                             Panic ''interface conversion: interface {} is not map[string]interface {}'')))))"

section \<open>provision/swarm/actions.go: the process deployment reconciler\<close>

subsection \<open>Data\<close>

text \<open>
  \<open>provision.App\<close> is an interface; the actions only ask for its name. An image's
  metadata maps process names to their commands. The Go map is kept as an association
  list: \<open>map_of\<close> is the lookup, and the order of the list stands for the order in which
  a \<open>range\<close> over the map happens to visit it, which Go leaves open. A key occurs once in
  a Go map, so the keys are read through \<open>remdups\<close>.
\<close>

record app =
  GetName :: string

record imageMetadata =
  Processes :: "(string \<times> string) list"

definition processNames :: "imageMetadata \<Rightarrow> string list" where
  "processNames d = remdups (map fst (Processes d))"

definition hasProcess :: "imageMetadata \<Rightarrow> string \<Rightarrow> bool" where
  "hasProcess d processName = (map_of (Processes d) processName \<noteq> None)"

text \<open>
  \<open>pipelineArgs\<close>. The \<open>client\<close> field is the handle of the cluster; the cluster it
  reaches is the state \<open>cluster\<close> below, passed explicitly. The two metadata pointers
  are built by the caller from values and are not nil.
\<close>

record pipelineArgs =
  app :: app
  newImage :: string
  newImgData :: imageMetadata
  currentImage :: string
  currentImgData :: imageMetadata

subsection \<open>The cluster behind the client\<close>

text \<open>
  The calls that leave the file: \<open>deploy\<close> and \<open>removeService\<close> (the service convergence
  engine) and \<open>image.AppendAppImageName\<close> (the metadata store). The state of the world
  they act on: for each app the image each process's Service runs, for each app its
  image history, every call issued so far with its outcome, and the log.

  Whether a call fails is not decided by this code. \<open>faults\<close> is the environment: given
  the calls made so far and the call about to be made, it says whether that call fails
  and with which error. It is a parameter of every operation.
\<close>

datatype call =
    Deploy string string string
  | RemoveService string string
  | AppendAppImageName string string

record cluster =
  services :: "string \<Rightarrow> string \<rightharpoonup> string"
  imageHistory :: "string \<Rightarrow> string list"
  calls :: "(call \<times> error option) list"
  logs :: "logEntry list"

type_synonym faults = "(call \<times> error option) list \<Rightarrow> call \<Rightarrow> error option"

definition record_call :: "call \<Rightarrow> error option \<Rightarrow> cluster \<Rightarrow> cluster" where
  "record_call k r c = c\<lparr>calls := calls c @ [(k, r)]\<rparr>"

text \<open>
  Modelled from the spec: \<open>deploy\<close> is not in src/. Section 4.3: it "ensures a Service
  for (app, processName) runs the given image -- create if absent, replace (not mutate in
  place) if a Service already exists". A call that fails leaves the Services as they
  were.
\<close>

definition deploy :: "faults \<Rightarrow> app \<Rightarrow> string \<Rightarrow> string \<Rightarrow> cluster \<Rightarrow> error option \<times> cluster" where
  "deploy f a processName img c =
     (let k = Deploy (GetName a) processName img;
          r = f (calls c) k;
          c1 = record_call k r c
      in case r of
           Some e \<Rightarrow> (Some e, c1)
         | None \<Rightarrow>
             (None, c1\<lparr>services := (services c1)
                        (GetName a := (services c1 (GetName a))(processName \<mapsto> img))\<rparr>))"

text \<open>
  Modelled from the spec: \<open>removeService\<close> is not in src/. Section 4.3: it "deletes the
  Service for (app, processName) if present; absence is not an error". A call that
  fails leaves the Services as they were.
\<close>

definition removeService :: "faults \<Rightarrow> app \<Rightarrow> string \<Rightarrow> cluster \<Rightarrow> error option \<times> cluster" where
  "removeService f a processName c =
     (let k = RemoveService (GetName a) processName;
          r = f (calls c) k;
          c1 = record_call k r c
      in case r of
           Some e \<Rightarrow> (Some e, c1)
         | None \<Rightarrow>
             (None, c1\<lparr>services := (services c1)
                        (GetName a := (services c1 (GetName a))(processName := None))\<rparr>))"

text \<open>
  Modelled from the spec: \<open>image.AppendAppImageName\<close> is not in src/. Section 6: it
  "durably records a new image as the latest for an app"; the history is append-only.
\<close>

definition AppendAppImageName_op :: "faults \<Rightarrow> string \<Rightarrow> string \<Rightarrow> cluster \<Rightarrow> error option \<times> cluster" where
  "AppendAppImageName_op f appName img c =
     (let k = AppendAppImageName appName img;
          r = f (calls c) k;
          c1 = record_call k r c
      in case r of
           Some e \<Rightarrow> (Some e, c1)
         | None \<Rightarrow>
             (None, c1\<lparr>imageHistory := (imageHistory c1)(appName := imageHistory c1 appName @ [img])\<rparr>))"

definition log_Errorf :: "string \<Rightarrow> logArg list \<Rightarrow> cluster \<Rightarrow> cluster" where
  "log_Errorf fmt as c = c\<lparr>logs := logs c @ [(fmt, as)]\<rparr>"

text \<open>
  Modelled from the spec: package \<open>set\<close> is not in src/. Section 6: "set-difference over
  process-name collections (old - new)". A set of strings is the list of its members,
  each once; \<open>set_FromMap\<close> takes the keys of a map.
\<close>

definition set_FromMap :: "(string \<times> string) list \<Rightarrow> string list" where
  "set_FromMap m = remdups (map fst m)"

definition set_Difference :: "string list \<Rightarrow> string list \<Rightarrow> string list" where
  "set_Difference old new = filter (\<lambda>x. x \<notin> set new) old"

subsection \<open>rollbackAddedProcesses\<close>

definition rollbackOne :: "faults \<Rightarrow> pipelineArgs \<Rightarrow> string \<Rightarrow> cluster \<Rightarrow> cluster" where
  "rollbackOne f args processName c =
     (let (err, c1) =
            (if hasProcess (currentImgData args) processName
             then deploy f (app args) processName (currentImage args) c
             else removeService f (app args) processName c)
      in case err of
           None \<Rightarrow> c1
         | Some e \<Rightarrow>
             log_Errorf ''error rolling back updated service for %s[%s]: %+v''
               [S (GetName (app args)), S processName, E e] c1)"

fun rollbackAddedProcesses :: "faults \<Rightarrow> pipelineArgs \<Rightarrow> string list \<Rightarrow> cluster \<Rightarrow> cluster" where
  "rollbackAddedProcesses f args [] c = c"
| "rollbackAddedProcesses f args (processName # processes) c =
     rollbackAddedProcesses f args processes (rollbackOne f args processName c)"

subsection \<open>The action pipeline\<close>

text \<open>
  Modelled from the spec: package \<open>action\<close> (the pipeline and its contexts) is not in
  src/. Section 4.2: actions run in list order, each Forward receiving the previous
  result; when a Forward fails the pipeline stops, does not run that action's Backward,
  runs the Backward of every action whose Forward succeeded, latest first, and returns
  the error of the failing Forward; otherwise it returns the last result.

  An \<open>action.Result\<close> is an untyped Go value; the values that occur here are nil and a
  slice of strings. \<open>Params\<close> is the list of arguments given to \<open>Execute\<close>; the actions
  read its first element.
\<close>

datatype result = Nil | Strings "string list"

record fwContext =
  fw_Params :: "pipelineArgs list"
  Previous :: result

record bwContext =
  bw_Params :: "pipelineArgs list"
  FWResult :: result

record action =
  Name :: string
  Forward :: "fwContext \<Rightarrow> cluster \<Rightarrow> ((error + result) \<times> cluster) outcome"
  Backward :: "(bwContext \<Rightarrow> cluster \<Rightarrow> cluster outcome) option"

fun rollback :: "(action \<times> result) list \<Rightarrow> pipelineArgs list \<Rightarrow> cluster \<Rightarrow> cluster outcome" where
  "rollback [] params c = Return c"
| "rollback ((a, r) # done) params c =
     (case Backward a of
        None \<Rightarrow> rollback done params c
      | Some backward \<Rightarrow>
          (case backward \<lparr>bw_Params = params, FWResult = r\<rparr> c of
             Panic m \<Rightarrow> Panic m
           | Return c1 \<Rightarrow> rollback done params c1))"

fun run :: "action list \<Rightarrow> (action \<times> result) list \<Rightarrow> pipelineArgs list \<Rightarrow> result \<Rightarrow> cluster
            \<Rightarrow> ((error + result) \<times> cluster) outcome" where
  "run [] done params prev c = Return (Inr prev, c)"
| "run (a # as) done params prev c =
     (case Forward a \<lparr>fw_Params = params, Previous = prev\<rparr> c of
        Panic m \<Rightarrow> Panic m
      | Return (Inl e, c1) \<Rightarrow>
          (case rollback done params c1 of
             Panic m \<Rightarrow> Panic m
           | Return c2 \<Rightarrow> Return (Inl e, c2))
      | Return (Inr r, c1) \<Rightarrow> run as ((a, r) # done) params r c1)"

definition Execute :: "action list \<Rightarrow> pipelineArgs list \<Rightarrow> cluster \<Rightarrow> ((error + result) \<times> cluster) outcome" where
  "Execute actions params c = run actions [] params Nil c"

subsection \<open>updateServices\<close>

text \<open>
  The deployment loop of \<open>Forward\<close>: deploy each name in turn, stop at the first error,
  collect the names deployed. It returns \<open>deployedProcesses\<close> and \<open>err\<close>.
\<close>

fun deployLoop :: "faults \<Rightarrow> pipelineArgs \<Rightarrow> string list \<Rightarrow> string list \<Rightarrow> cluster
                   \<Rightarrow> (string list \<times> error option) \<times> cluster" where
  "deployLoop f args [] deployedProcesses c = ((deployedProcesses, None), c)"
| "deployLoop f args (processName # rest) deployedProcesses c =
     (case deploy f (app args) processName (newImage args) c of
        (Some e, c1) \<Rightarrow> ((deployedProcesses, Some e), c1)
      | (None, c1) \<Rightarrow> deployLoop f args rest (deployedProcesses @ [processName]) c1)"

text \<open>
  \<open>sort.Strings\<close> orders Go strings byte by byte; \<open>sort\<close> on \<open>string\<close> with the
  lexicographic order on lists over the order of characters by their codes is the same
  order.
\<close>

definition updateServices_Forward :: "faults \<Rightarrow> fwContext \<Rightarrow> cluster \<Rightarrow> ((error + result) \<times> cluster) outcome" where
  "updateServices_Forward f ctx c =
     (case fw_Params ctx of
        [] \<Rightarrow> Panic ''index out of range''
      | args # _ \<Rightarrow>
          (let toDeployProcesses = sort (processNames (newImgData args));
               ((deployedProcesses, err), c1) = deployLoop f args toDeployProcesses [] c
           in case err of
                Some e \<Rightarrow> Return (Inl e, rollbackAddedProcesses f args deployedProcesses c1)
              | None \<Rightarrow> Return (Inr (Strings deployedProcesses), c1)))"

definition updateServices_Backward :: "faults \<Rightarrow> bwContext \<Rightarrow> cluster \<Rightarrow> cluster outcome" where
  "updateServices_Backward f ctx c =
     (case bw_Params ctx of
        [] \<Rightarrow> Panic ''index out of range''
      | args # _ \<Rightarrow>
          (case FWResult ctx of
             Strings deployedProcesses \<Rightarrow> Return (rollbackAddedProcesses f args deployedProcesses c)
           | Nil \<Rightarrow> Panic ''interface conversion: interface {} is nil, not []string''))"

definition updateServices :: "faults \<Rightarrow> action" where
  "updateServices f =
     \<lparr>Name = ''update-services'',
      Forward = updateServices_Forward f,
      Backward = Some (updateServices_Backward f)\<rparr>"

subsection \<open>updateImageInDB\<close>

definition updateImageInDB_Forward :: "faults \<Rightarrow> fwContext \<Rightarrow> cluster \<Rightarrow> ((error + result) \<times> cluster) outcome" where
  "updateImageInDB_Forward f ctx c =
     (case fw_Params ctx of
        [] \<Rightarrow> Panic ''index out of range''
      | args # _ \<Rightarrow>
          (case AppendAppImageName_op f (GetName (app args)) (newImage args) c of
             (Some e, c1) \<Rightarrow> Return (Inl (Wrap e ''''), c1)
           | (None, c1) \<Rightarrow> Return (Inr (Previous ctx), c1)))"

definition updateImageInDB :: "faults \<Rightarrow> action" where
  "updateImageInDB f =
     \<lparr>Name = ''update-image-in-db'',
      Forward = updateImageInDB_Forward f,
      Backward = None\<rparr>"

subsection \<open>removeOldServices\<close>

definition removeOne :: "faults \<Rightarrow> pipelineArgs \<Rightarrow> string \<Rightarrow> cluster \<Rightarrow> cluster" where
  "removeOne f args processName c =
     (case removeService f (app args) processName c of
        (None, c1) \<Rightarrow> c1
      | (Some e, c1) \<Rightarrow>
          log_Errorf ''ignored error removing unwanted service for %s[%s]: %+v''
            [S (GetName (app args)), S processName, E e] c1)"

fun removeLoop :: "faults \<Rightarrow> pipelineArgs \<Rightarrow> string list \<Rightarrow> cluster \<Rightarrow> cluster" where
  "removeLoop f args [] c = c"
| "removeLoop f args (processName # rest) c = removeLoop f args rest (removeOne f args processName c)"

definition removeOldServices_Forward :: "faults \<Rightarrow> fwContext \<Rightarrow> cluster \<Rightarrow> ((error + result) \<times> cluster) outcome" where
  "removeOldServices_Forward f ctx c =
     (case fw_Params ctx of
        [] \<Rightarrow> Panic ''index out of range''
      | args # _ \<Rightarrow>
          (let old = set_FromMap (Processes (currentImgData args));
               new = set_FromMap (Processes (newImgData args))
           in Return (Inr Nil, removeLoop f args (set_Difference old new) c)))"

definition removeOldServices :: "faults \<Rightarrow> action" where
  "removeOldServices f =
     \<lparr>Name = ''remove-old-services'',
      Forward = removeOldServices_Forward f,
      Backward = None\<rparr>"

text \<open>
  The pipeline of the reconciler, in the order section 2 of the spec gives:
  update-services, update-image-in-db, remove-old-services. (The list itself is built by
  the caller, outside src/.)
\<close>

definition deployPipeline :: "faults \<Rightarrow> action list" where
  "deployPipeline f = [updateServices f, updateImageInDB f, removeOldServices f]"

section \<open>provision/kubernetes/nodecontainer.go: the node-container reconciler\<close>

subsection \<open>The Kubernetes objects the code builds and compares\<close>

text \<open>
  The structs of the Kubernetes API are records with the fields this file sets or reads;
  a Go pointer that may be nil is an \<open>option\<close>. \<open>reflect.DeepEqual\<close> tells a nil map from
  an empty one, so a Go map of strings is an \<open>option\<close> too: \<open>None\<close> is the nil map,
  \<open>Some Map.empty\<close> the empty one made by \<open>map[string]string{}\<close>. With that, equality in
  HOL is \<open>reflect.DeepEqual\<close> on these values. The parts of an affinity this file never
  builds (pod affinity, pod anti-affinity, preferred terms) are carried as opaque text.
\<close>

type_synonym goMap = "(string \<rightharpoonup> string) option"

type_synonym opaque = string

datatype nodeSelectorOperator =
    NodeSelectorOpIn
  | NodeSelectorOpNotIn
  | NodeSelectorOpExists
  | NodeSelectorOpDoesNotExist
  | NodeSelectorOpGt
  | NodeSelectorOpLt

record nodeSelectorRequirement =
  Key :: string
  Operator :: nodeSelectorOperator
  Values :: "string list"

record nodeSelectorTerm =
  MatchExpressions :: "nodeSelectorRequirement list"

record nodeSelector =
  NodeSelectorTerms :: "nodeSelectorTerm list"

record nodeAffinity =
  RequiredDuringSchedulingIgnoredDuringExecution :: "nodeSelector option"
  PreferredDuringSchedulingIgnoredDuringExecution :: "opaque list option"

record affinity =
  NodeAffinity :: "nodeAffinity option"
  PodAffinity :: "opaque option"
  PodAntiAffinity :: "opaque option"

record objectMeta =
  om_Name :: string
  om_Namespace :: string
  om_Labels :: goMap
  om_Annotations :: goMap

record labelSelector =
  MatchLabels :: goMap

datatype intOrString = FromInt int | FromString string

datatype daemonSetUpdateStrategyType =
    RollingUpdateDaemonSetStrategyType
  | OnDeleteDaemonSetStrategyType

record rollingUpdateDaemonSet =
  MaxUnavailable :: "intOrString option"

record daemonSetUpdateStrategy =
  us_Type :: daemonSetUpdateStrategyType
  RollingUpdate :: "rollingUpdateDaemonSet option"

record hostPathVolumeSource =
  Path :: string

record volume =
  vol_Name :: string
  HostPath :: "hostPathVolumeSource option"

record volumeMount =
  vm_Name :: string
  MountPath :: string
  ReadOnly :: bool

record envVar =
  ev_Name :: string
  ev_Value :: string

record securityContext =
  sc_Privileged :: "bool option"

datatype restartPolicy = RestartPolicyAlways | RestartPolicyOnFailure | RestartPolicyNever

record v1Container =
  ct_Name :: string
  ct_Image :: string
  Command :: "string list"
  Args :: "string list"
  ct_Env :: "envVar list"
  ct_WorkingDir :: string
  TTY :: bool
  VolumeMounts :: "volumeMount list"
  SecurityContext :: "securityContext option"

record podSpec =
  Affinity :: "affinity option"
  Volumes :: "volume list"
  ps_RestartPolicy :: restartPolicy
  HostNetwork :: bool
  Containers :: "v1Container list"

record podTemplateSpec =
  pt_ObjectMeta :: objectMeta
  pt_Spec :: podSpec

record daemonSetSpec =
  Selector :: "labelSelector option"
  UpdateStrategy :: daemonSetUpdateStrategy
  Template :: podTemplateSpec

record daemonSet =
  ds_ObjectMeta :: objectMeta
  ds_Spec :: daemonSetSpec

subsection \<open>The configuration and the pool filter\<close>

text \<open>
  \<open>nodecontainer.NodeContainerConfig\<close> with the fields of \<open>docker.Config\<close> and
  \<open>docker.HostConfig\<close> this file reads, and \<open>servicecommon.PoolFilter\<close>. Only the length
  and the elements of the filter's two slices are read, so they are lists.
\<close>

record dockerConfig =
  cfg_Labels :: goMap
  cfg_Env :: "string list"
  Entrypoint :: "string list"
  Cmd :: "string list"
  cfg_WorkingDir :: string
  Tty :: bool

record dockerRestartPolicy =
  rp_Name :: string
  MaximumRetryCount :: int

record hostConfig =
  Binds :: "string list"
  hc_Privileged :: bool
  hc_RestartPolicy :: dockerRestartPolicy
  NetworkMode :: string

record nodeContainerConfig =
  nc_Name :: string
  PinnedImage :: string
  Config :: dockerConfig
  HostConfig :: hostConfig

record poolFilter =
  Include :: "string list"
  Exclude :: "string list"

subsection \<open>What the file takes from other packages\<close>

text \<open>
  Constants and helpers declared outside src/ are parameters: the label key
  \<open>provision.LabelNodePool\<close>, \<open>provisionerName\<close>, \<open>tsuruLabelPrefix\<close>, the default
  system-monitor name \<open>nodecontainer.BsDefaultName\<close>, \<open>daemonSetName\<close>, the label set of
  \<open>provision.NodeContainerLabels\<close> with its two projections, the method \<open>config.Image()\<close>,
  \<open>json.Marshal\<close> on an affinity, and the names of go-dockerclient's restart policies
  \<open>RestartOnFailure(0)\<close> and \<open>NeverRestart()\<close>.
\<close>

record nodeContainerLabelsOpts =
  opt_Name :: string
  CustomLabels :: goMap
  Pool :: string
  Provisioner :: string
  Prefix :: string

record k8sEnv =
  LabelNodePool :: string
  provisionerName :: string
  tsuruLabelPrefix :: string
  BsDefaultName :: string
  daemonSetName :: "string \<Rightarrow> string \<Rightarrow> string"
  ToLabels :: "nodeContainerLabelsOpts \<Rightarrow> goMap"
  ToNodeContainerSelector :: "nodeContainerLabelsOpts \<Rightarrow> goMap"
  config_Image :: "nodeContainerConfig \<Rightarrow> string"
  json_Marshal :: "affinity \<Rightarrow> error + string"
  RestartOnFailure_Name :: string
  NeverRestart_Name :: string

definition alphaAffinityAnnotation :: string where
  "alphaAffinityAnnotation = ''scheduler.alpha.kubernetes.io/affinity''"

subsection \<open>The cluster behind a client\<close>

text \<open>
  Modelled from the spec: the cluster API client is not in src/. Section 6: "per-cluster
  handle exposing namespace, and CRUD for the daemon object type keyed by name within
  namespace; not found must be distinguishable from other errors". A client holds its
  namespace, the daemon objects stored in that namespace, every API call made so far with
  its outcome, and the environment \<open>apiFaults\<close> that decides which calls fail. A call that
  fails leaves the store as it was.
\<close>

datatype k8sCall =
    Get string string
  | Update string daemonSet
  | Create string daemonSet

record clusterClient =
  Namespace :: string
  daemonSets :: "string \<rightharpoonup> daemonSet"
  apiCalls :: "(k8sCall \<times> error option) list"
  apiFaults :: "(k8sCall \<times> error option) list \<Rightarrow> k8sCall \<Rightarrow> error option"

definition record_api :: "k8sCall \<Rightarrow> error option \<Rightarrow> clusterClient \<Rightarrow> clusterClient" where
  "record_api k r cl = cl\<lparr>apiCalls := apiCalls cl @ [(k, r)]\<rparr>"

definition DaemonSets_Get :: "string \<Rightarrow> clusterClient \<Rightarrow> (error + daemonSet) \<times> clusterClient" where
  "DaemonSets_Get dsName cl =
     (let k = Get (Namespace cl) dsName in
      case apiFaults cl (apiCalls cl) k of
        Some e \<Rightarrow> (Inl e, record_api k (Some e) cl)
      | None \<Rightarrow>
          (case daemonSets cl dsName of
             None \<Rightarrow> (Inl (NotFound dsName), record_api k (Some (NotFound dsName)) cl)
           | Some ds \<Rightarrow> (Inr ds, record_api k None cl)))"

definition DaemonSets_Update :: "daemonSet \<Rightarrow> clusterClient \<Rightarrow> error option \<times> clusterClient" where
  "DaemonSets_Update ds cl =
     (let k = Update (Namespace cl) ds; n = om_Name (ds_ObjectMeta ds) in
      case apiFaults cl (apiCalls cl) k of
        Some e \<Rightarrow> (Some e, record_api k (Some e) cl)
      | None \<Rightarrow>
          (case daemonSets cl n of
             None \<Rightarrow> (Some (NotFound n), record_api k (Some (NotFound n)) cl)
           | Some _ \<Rightarrow> (None, (record_api k None cl)\<lparr>daemonSets := (daemonSets cl)(n \<mapsto> ds)\<rparr>)))"

definition DaemonSets_Create :: "daemonSet \<Rightarrow> clusterClient \<Rightarrow> error option \<times> clusterClient" where
  "DaemonSets_Create ds cl =
     (let k = Create (Namespace cl) ds; n = om_Name (ds_ObjectMeta ds) in
      case apiFaults cl (apiCalls cl) k of
        Some e \<Rightarrow> (Some e, record_api k (Some e) cl)
      | None \<Rightarrow>
          (case daemonSets cl n of
             Some _ \<Rightarrow> (Some (External ''already exists''), record_api k (Some (External ''already exists'')) cl)
           | None \<Rightarrow> (None, (record_api k None cl)\<lparr>daemonSets := (daemonSets cl)(n \<mapsto> ds)\<rparr>)))"

definition IsNotFound :: "error \<Rightarrow> bool" where
  "IsNotFound err = (case err of NotFound _ \<Rightarrow> True | _ \<Rightarrow> False)"

text \<open>\<open>errors.WithStack\<close> returns nil for nil.\<close>

definition errors_WithStack :: "error option \<Rightarrow> error option" where
  "errors_WithStack err = map_option WithStack err"

subsection \<open>Strings\<close>

text \<open>
  \<open>strings.SplitN(s, sep, n)\<close> for a separator of one character and \<open>n \<ge> 0\<close>: at most \<open>n\<close>
  pieces, the last one the unsplit rest; for \<open>n = 0\<close> the result is nil.
  \<open>fmt.Sprintf("%d", i)\<close> for a natural number is \<open>itoa\<close>.
\<close>

fun splitN :: "string \<Rightarrow> char \<Rightarrow> nat \<Rightarrow> string list" where
  "splitN s sep 0 = []"
| "splitN s sep (Suc 0) = [s]"
| "splitN s sep (Suc (Suc n)) =
     (if sep \<in> set s
      then takeWhile (\<lambda>c. c \<noteq> sep) s # splitN (tl (dropWhile (\<lambda>c. c \<noteq> sep) s)) sep (Suc n)
      else [s])"

fun itoa :: "nat \<Rightarrow> string" where
  "itoa n = (if n < 10 then [char_of (48 + n)] else itoa (n div 10) @ [char_of (48 + n mod 10)])"

subsection \<open>deployNodeContainerForCluster\<close>

text \<open>Lines 50 to 59: the node-selection requirement.\<close>

definition nodeReqOf :: "k8sEnv \<Rightarrow> poolFilter \<Rightarrow> nodeSelectorRequirement" where
  "nodeReqOf env filt =
     (if length (Exclude filt) > 0
      then \<lparr>Key = LabelNodePool env, Operator = NodeSelectorOpNotIn, Values = Exclude filt\<rparr>
      else \<lparr>Key = LabelNodePool env, Operator = NodeSelectorOpIn, Values = Include filt\<rparr>)"

text \<open>
  Lines 60 to 78: the annotation map and the affinity. The result is the error of
  \<open>json.Marshal\<close>, or the pair \<open>(affinityAnnotation, affinity)\<close>; the map is never nil.
\<close>

definition affinityOf :: "nodeSelectorRequirement \<Rightarrow> affinity" where
  "affinityOf nodeReq =
     \<lparr>NodeAffinity = Some
        \<lparr>RequiredDuringSchedulingIgnoredDuringExecution = Some
           \<lparr>NodeSelectorTerms = [\<lparr>MatchExpressions = [nodeReq]\<rparr>]\<rparr>,
         PreferredDuringSchedulingIgnoredDuringExecution = None\<rparr>,
      PodAffinity = None,
      PodAntiAffinity = None\<rparr>"

definition placementOf :: "k8sEnv \<Rightarrow> nodeSelectorRequirement \<Rightarrow> error + (string \<rightharpoonup> string) \<times> affinity option" where
  "placementOf env nodeReq =
     (if length (Values nodeReq) \<noteq> 0
      then (case json_Marshal env (affinityOf nodeReq) of
              Inl err \<Rightarrow> Inl err
            | Inr affinityData \<Rightarrow>
                Inr (Map.empty(alphaAffinityAnnotation \<mapsto> affinityData), Some (affinityOf nodeReq)))
      else Inr (Map.empty, None))"

text \<open>Lines 96 to 103: the environment variables.\<close>

definition envVarOf :: "string \<Rightarrow> envVar" where
  "envVarOf v =
     (let parts = splitN v (CHR ''='') 2
      in \<lparr>ev_Name = parts ! 0, ev_Value = (if length parts > 1 then parts ! 1 else '''')\<rparr>)"

text \<open>
  Lines 106 to 112: for the default system-monitor name three binds are appended, and
  the result is stored back into \<open>config.HostConfig.Binds\<close>. \<open>config\<close> is a pointer, so the
  store is visible to the caller: the function returns the configuration it leaves.
\<close>

definition withDefaultBinds :: "k8sEnv \<Rightarrow> nodeContainerConfig \<Rightarrow> nodeContainerConfig" where
  "withDefaultBinds env config =
     (if nc_Name config = BsDefaultName env
      then config\<lparr>HostConfig := (HostConfig config)\<lparr>Binds := Binds (HostConfig config) @
             [''/var/log:/var/log:rw'',
              ''/var/lib/docker/containers:/var/lib/docker/containers:ro'',
              ''/mnt/sda1/var/lib/docker/containers:/mnt/sda1/var/lib/docker/containers:ro'']\<rparr>\<rparr>
      else config)"

text \<open>Lines 113 to 134: one volume and one mount for the bind at index \<open>i\<close>.\<close>

definition volumeOf :: "nat \<Rightarrow> string \<Rightarrow> volume" where
  "volumeOf i b =
     (let parts = splitN b (CHR '':'') 3
      in \<lparr>vol_Name = ''volume-'' @ itoa i, HostPath = Some \<lparr>Path = parts ! 0\<rparr>\<rparr>)"

definition mountOf :: "nat \<Rightarrow> string \<Rightarrow> volumeMount" where
  "mountOf i b =
     (let parts = splitN b (CHR '':'') 3
      in \<lparr>vm_Name = vol_Name (volumeOf i b),
          MountPath = (if length parts > 1 then parts ! 1 else ''''),
          ReadOnly = (if length parts > 2 then parts ! 2 = ''ro'' else False)\<rparr>)"

text \<open>Lines 135 to 148: the security context and the restart policy.\<close>

definition secCtxOf :: "nodeContainerConfig \<Rightarrow> securityContext option" where
  "secCtxOf config =
     (if hc_Privileged (HostConfig config) then Some \<lparr>sc_Privileged = Some True\<rparr> else None)"

definition restartPolicyOf :: "k8sEnv \<Rightarrow> nodeContainerConfig \<Rightarrow> restartPolicy" where
  "restartPolicyOf env config =
     (let n = rp_Name (hc_RestartPolicy (HostConfig config))
      in if n = RestartOnFailure_Name env then RestartPolicyOnFailure
         else if n = NeverRestart_Name env then RestartPolicyNever
         else RestartPolicyAlways)"

text \<open>
  Lines 89 to 95 and 149 to 191: the complete daemon object, from the configuration as
  it stands after the binds were appended.
\<close>

definition desiredDaemonSet :: "k8sEnv \<Rightarrow> clusterClient \<Rightarrow> nodeContainerConfig \<Rightarrow> string
      \<Rightarrow> (string \<rightharpoonup> string) \<Rightarrow> affinity option \<Rightarrow> daemonSet" where
  "desiredDaemonSet env client config pool affinityAnnotation affinity =
     (let ls = \<lparr>opt_Name = nc_Name config, CustomLabels = cfg_Labels (Config config), Pool = pool,
                Provisioner = provisionerName env, Prefix = tsuruLabelPrefix env\<rparr>;
          binds = Binds (HostConfig config);
          idx = [0 ..< length binds]
      in \<lparr>ds_ObjectMeta =
            \<lparr>om_Name = daemonSetName env (nc_Name config) pool, om_Namespace = Namespace client,
             om_Labels = None, om_Annotations = None\<rparr>,
          ds_Spec =
            \<lparr>Selector = Some \<lparr>MatchLabels = ToNodeContainerSelector env ls\<rparr>,
             UpdateStrategy =
               \<lparr>us_Type = RollingUpdateDaemonSetStrategyType,
                RollingUpdate = Some \<lparr>MaxUnavailable = Some (FromString ''20%'')\<rparr>\<rparr>,
             Template =
               \<lparr>pt_ObjectMeta =
                  \<lparr>om_Name = '''', om_Namespace = '''',
                   om_Labels = ToLabels env ls, om_Annotations = Some affinityAnnotation\<rparr>,
                pt_Spec =
                  \<lparr>Affinity = affinity,
                   Volumes = map (\<lambda>i. volumeOf i (binds ! i)) idx,
                   ps_RestartPolicy = restartPolicyOf env config,
                   HostNetwork = (NetworkMode (HostConfig config) = ''host''),
                   Containers =
                     [\<lparr>ct_Name = nc_Name config,
                       ct_Image = config_Image env config,
                       Command = Entrypoint (Config config),
                       Args = Cmd (Config config),
                       ct_Env = map envVarOf (cfg_Env (Config config)),
                       ct_WorkingDir = cfg_WorkingDir (Config config),
                       TTY = Tty (Config config),
                       VolumeMounts = map (\<lambda>i. mountOf i (binds ! i)) idx,
                       SecurityContext = secCtxOf config\<rparr>]\<rparr>\<rparr>\<rparr>\<rparr>)"

text \<open>
  The function. It returns the error (\<open>None\<close> for nil), the configuration and the client
  as the call leaves them.
\<close>

definition deployNodeContainerForCluster ::
    "k8sEnv \<Rightarrow> clusterClient \<Rightarrow> nodeContainerConfig \<Rightarrow> string \<Rightarrow> poolFilter \<Rightarrow> bool
      \<Rightarrow> error option \<times> nodeContainerConfig \<times> clusterClient" where
  "deployNodeContainerForCluster env client config pool filt placementOnly =
     (let dsName = daemonSetName env (nc_Name config) pool;
          (got, client1) = DaemonSets_Get dsName client
      in case (case got of
                 Inl err \<Rightarrow> if \<not> IsNotFound err then Inl err else Inr None
               | Inr ds \<Rightarrow> Inr (Some ds)) of
           Inl err \<Rightarrow> (Some (WithStack err), config, client1)
         | Inr oldDs \<Rightarrow>
             (case placementOf env (nodeReqOf env filt) of
                Inl err \<Rightarrow> (Some (WithStack err), config, client1)
              | Inr (affinityAnnotation, affinity) \<Rightarrow>
                  (case (if placementOnly then oldDs else None) of
                     Some old \<Rightarrow>
                       (if om_Annotations (pt_ObjectMeta (Template (ds_Spec old))) = Some affinityAnnotation
                           \<and> Affinity (pt_Spec (Template (ds_Spec old))) = affinity
                        then (None, config, client1)
                        else
                          (let old1 = old\<lparr>ds_Spec := (ds_Spec old)\<lparr>Template := (Template (ds_Spec old))
                                        \<lparr>pt_ObjectMeta := (pt_ObjectMeta (Template (ds_Spec old)))
                                           \<lparr>om_Annotations := Some affinityAnnotation\<rparr>\<rparr>\<rparr>\<rparr>;
                               old2 = old1\<lparr>ds_Spec := (ds_Spec old1)\<lparr>Template := (Template (ds_Spec old1))
                                        \<lparr>pt_Spec := (pt_Spec (Template (ds_Spec old1)))
                                           \<lparr>Affinity := affinity\<rparr>\<rparr>\<rparr>\<rparr>;
                               (err, client2) = DaemonSets_Update old2 client1
                           in (errors_WithStack err, config, client2)))
                   | None \<Rightarrow>
                       (let config1 = withDefaultBinds env config;
                            ds = desiredDaemonSet env client1 config1 pool affinityAnnotation affinity;
                            (err, client2) =
                              (if oldDs \<noteq> None then DaemonSets_Update ds client1
                               else DaemonSets_Create ds client1)
                        in (errors_WithStack err, config1, client2)))))"

subsection \<open>DeployNodeContainer\<close>

text \<open>
  Modelled from the spec: \<open>forEachCluster\<close> is not in src/. Section 4.5: the function is
  run "for each registered cluster", an error ends the loop and is returned ("propagates
  the first error"), and with no cluster registered the result is \<open>cluster.ErrNoCluster\<close>,
  which \<open>DeployNodeContainer\<close> turns into success. The registered clusters are the list of
  their clients; \<open>'s\<close> is the state the function shares between its runs (here the
  configuration behind the pointer).
\<close>

fun forEachCluster_loop :: "(clusterClient \<Rightarrow> 's \<Rightarrow> error option \<times> 's \<times> clusterClient)
      \<Rightarrow> clusterClient list \<Rightarrow> 's \<Rightarrow> error option \<times> 's \<times> clusterClient list" where
  "forEachCluster_loop fn [] s = (None, s, [])"
| "forEachCluster_loop fn (client # rest) s =
     (case fn client s of
        (Some e, s1, client1) \<Rightarrow> (Some e, s1, client1 # rest)
      | (None, s1, client1) \<Rightarrow>
          (case forEachCluster_loop fn rest s1 of
             (r, s2, rest2) \<Rightarrow> (r, s2, client1 # rest2)))"

definition forEachCluster :: "(clusterClient \<Rightarrow> 's \<Rightarrow> error option \<times> 's \<times> clusterClient)
      \<Rightarrow> clusterClient list \<Rightarrow> 's \<Rightarrow> error option \<times> 's \<times> clusterClient list" where
  "forEachCluster fn clusters s =
     (if clusters = [] then (Some ErrNoCluster, s, []) else forEachCluster_loop fn clusters s)"

definition DeployNodeContainer ::
    "k8sEnv \<Rightarrow> clusterClient list \<Rightarrow> nodeContainerConfig \<Rightarrow> string \<Rightarrow> poolFilter \<Rightarrow> bool
      \<Rightarrow> error option \<times> nodeContainerConfig \<times> clusterClient list" where
  "DeployNodeContainer env clusters config pool filt placementOnly =
     (case forEachCluster
             (\<lambda>cluster cfg. deployNodeContainerForCluster env cluster cfg pool filt placementOnly)
             clusters config of
        (err, config1, clusters1) \<Rightarrow>
          (if err = Some ErrNoCluster then (None, config1, clusters1) else (err, config1, clusters1)))"

section \<open>Vocabulary of the properties\<close>

text \<open>
  The definitions of this section are not code: they follow the words of the
  specification and are what the theorems compare the code with.

  The rollback the specification describes for one process: "for processes that also
  exist in the current image, redeploy the current image's version (restore); for
  processes new to this run (absent from current image), remove the Service entirely".
  \<open>spec_rollbackCall\<close> is the call that does it, \<open>spec_rolledBack\<close> the image the process's
  Service runs afterwards (\<open>None\<close>: no Service).
\<close>

definition spec_rollbackCall :: "pipelineArgs \<Rightarrow> string \<Rightarrow> call" where
  "spec_rollbackCall args processName =
     (if hasProcess (currentImgData args) processName
      then Deploy (GetName (app args)) processName (currentImage args)
      else RemoveService (GetName (app args)) processName)"

definition spec_rolledBack :: "pipelineArgs \<Rightarrow> string \<Rightarrow> string option" where
  "spec_rolledBack args processName =
     (if hasProcess (currentImgData args) processName then Some (currentImage args) else None)"

text \<open>The calls made between an earlier state of the cluster and a later one.\<close>

definition callsSince :: "cluster \<Rightarrow> cluster \<Rightarrow> (call \<times> error option) list" where
  "callsSince c c' = drop (length (calls c)) (calls c')"

definition isRemoveService :: "call \<Rightarrow> bool" where
  "isRemoveService k = (case k of RemoveService _ _ \<Rightarrow> True | _ \<Rightarrow> False)"

definition isAppendAppImageName :: "call \<Rightarrow> bool" where
  "isAppendAppImageName k = (case k of AppendAppImageName _ _ \<Rightarrow> True | _ \<Rightarrow> False)"

section \<open>Concrete scenarios\<close>

text \<open>
  The end-to-end scenarios of section 8 of the specification, as concrete inputs. The app
  is \<open>myapp\<close>; the image deployed so far is \<open>v1\<close>, the new one \<open>v2\<close>; the cluster starts
  with the Services of the current image.

  Scenario C: the new image declares web and worker, the current one web, and deploying
  worker fails.
\<close>

definition myapp :: app where
  "myapp = \<lparr>GetName = ''myapp''\<rparr>"

definition argsC :: pipelineArgs where
  "argsC =
     \<lparr>app = myapp,
      newImage = ''v2'',
      newImgData = \<lparr>Processes = [(''worker'', ''run-worker''), (''web'', ''run-web'')]\<rparr>,
      currentImage = ''v1'',
      currentImgData = \<lparr>Processes = [(''web'', ''run-web'')]\<rparr>\<rparr>"

definition clusterC :: cluster where
  "clusterC =
     \<lparr>services = (\<lambda>a. if a = ''myapp'' then [''web'' \<mapsto> ''v1''] else Map.empty),
      imageHistory = (\<lambda>a. if a = ''myapp'' then [''v1''] else []),
      calls = [],
      logs = []\<rparr>"

definition faultsC :: faults where
  "faultsC h k =
     (if k = Deploy ''myapp'' ''worker'' ''v2'' then Some (External ''no capacity'') else None)"

text \<open>
  Four runs of \<open>ip\<close>, one per failure cause: the runtime binary is configured, the
  executor answers with the given output and error, and the output decodes to the given
  document.
\<close>

definition dockerEnvWith :: "string \<times> error option \<Rightarrow> json option \<Rightarrow> dockerEnv" where
  "dockerEnvWith answer doc =
     \<lparr>config_GetString =
        (\<lambda>k. if k = ''docker:binary'' then Inr ''/usr/bin/docker'' else Inl (External ''key not found'')),
      execute = (\<lambda>cmd args. answer),
      json_decode = (\<lambda>text. doc)\<rparr>"

definition someContainer :: container where
  "someContainer = \<lparr>name = ''myapp'', instanceId = ''c0ffee''\<rparr>"

text \<open>
  Scenario B: the new image declares web, the current one web and worker, and removing
  the Service of worker fails.
\<close>

definition argsB :: pipelineArgs where
  "argsB =
     \<lparr>app = myapp,
      newImage = ''v2'',
      newImgData = \<lparr>Processes = [(''web'', ''run-web'')]\<rparr>,
      currentImage = ''v1'',
      currentImgData = \<lparr>Processes = [(''web'', ''run-web''), (''worker'', ''run-worker'')]\<rparr>\<rparr>"

definition clusterB :: cluster where
  "clusterB =
     \<lparr>services = (\<lambda>a. if a = ''myapp'' then [''web'' \<mapsto> ''v1'', ''worker'' \<mapsto> ''v1''] else Map.empty),
      imageHistory = (\<lambda>a. if a = ''myapp'' then [''v1''] else []),
      calls = [],
      logs = []\<rparr>"

definition faultsB :: faults where
  "faultsB h k =
     (if k = RemoveService ''myapp'' ''worker'' then Some (External ''node unreachable'') else None)"

text \<open>An environment in which no call fails.\<close>

definition noFaults :: faults where
  "noFaults h k = None"

text \<open>
  A variant of scenario B with a third process: the current image declares worker, cron
  and web (visited in that order), the new one web; removing worker fails, removing cron
  does not.
\<close>

definition argsD :: pipelineArgs where
  "argsD =
     \<lparr>app = myapp,
      newImage = ''v2'',
      newImgData = \<lparr>Processes = [(''web'', ''run-web'')]\<rparr>,
      currentImage = ''v1'',
      currentImgData =
        \<lparr>Processes = [(''worker'', ''run-worker''), (''cron'', ''run-cron''), (''web'', ''run-web'')]\<rparr>\<rparr>"

definition clusterD :: cluster where
  "clusterD =
     \<lparr>services = (\<lambda>a. if a = ''myapp''
                        then [''web'' \<mapsto> ''v2'', ''worker'' \<mapsto> ''v1'', ''cron'' \<mapsto> ''v1'']
                        else Map.empty),
      imageHistory = (\<lambda>a. if a = ''myapp'' then [''v1'', ''v2''] else []),
      calls = [],
      logs = []\<rparr>"

text \<open>
  A rollback whose first call fails and whose later calls succeed: web was deployed at
  \<open>v2\<close> and is to be restored to \<open>v1\<close>.
\<close>

definition clusterR :: cluster where
  "clusterR =
     \<lparr>services = (\<lambda>a. if a = ''myapp'' then [''web'' \<mapsto> ''v2''] else Map.empty),
      imageHistory = (\<lambda>a. if a = ''myapp'' then [''v1''] else []),
      calls = [],
      logs = []\<rparr>"

definition faultsR :: faults where
  "faultsR h k = (if h = [] then Some (External ''timeout'') else None)"

text \<open>
  A concrete setting for the node-container reconciler. The parameters get definite
  values (\<open>marshalText\<close> stands in for \<open>json.Marshal\<close>: it writes the key, the operator and
  the values of the requirements). The configuration is the default system monitor,
  \<open>big-sibling\<close>, with one bind of its own. \<open>oneCluster\<close> has no daemon object yet;
  \<open>clusterWithDaemon\<close> holds the object a full reconciliation for the filter
  \<open>includePool1\<close> creates.
\<close>

definition marshalText :: "affinity \<Rightarrow> string" where
  "marshalText a =
     (case NodeAffinity a of
        None \<Rightarrow> ''{}''
      | Some na \<Rightarrow>
          (case RequiredDuringSchedulingIgnoredDuringExecution na of
             None \<Rightarrow> ''{}''
           | Some sel \<Rightarrow>
               concat (map (\<lambda>t. concat (map (\<lambda>r.
                   Key r @ (if Operator r = NodeSelectorOpNotIn then '' NotIn '' else '' In '')
                     @ concat (map (\<lambda>v. v @ '' '') (Values r)))
                 (MatchExpressions t))) (NodeSelectorTerms sel))))"

definition envK :: k8sEnv where
  "envK =
     \<lparr>LabelNodePool = ''tsuru.io/pool'',
      provisionerName = ''kubernetes'',
      tsuruLabelPrefix = ''tsuru.io/'',
      BsDefaultName = ''big-sibling'',
      daemonSetName = (\<lambda>n pool. ''node-container-'' @ n @ ''-pool-'' @ pool),
      ToLabels = (\<lambda>opts. Some [''tsuru.io/node-container-name'' \<mapsto> opt_Name opts,
                                ''tsuru.io/node-container-pool'' \<mapsto> Pool opts]),
      ToNodeContainerSelector = (\<lambda>opts. Some [''tsuru.io/node-container-name'' \<mapsto> opt_Name opts,
                                              ''tsuru.io/node-container-pool'' \<mapsto> Pool opts]),
      config_Image = (\<lambda>c. if PinnedImage c \<noteq> '''' then PinnedImage c else ''tsuru/bs:v1''),
      json_Marshal = (\<lambda>a. Inr (marshalText a)),
      RestartOnFailure_Name = ''on-failure'',
      NeverRestart_Name = ''no''\<rparr>"

definition bsConfig :: nodeContainerConfig where
  "bsConfig =
     \<lparr>nc_Name = ''big-sibling'',
      PinnedImage = '''',
      Config = \<lparr>cfg_Labels = None, cfg_Env = [''LOG_LEVEL=debug''], Entrypoint = [], Cmd = [],
                cfg_WorkingDir = '''', Tty = False\<rparr>,
      HostConfig = \<lparr>Binds = [''/proc:/prochost:ro''], hc_Privileged = True,
                    hc_RestartPolicy = \<lparr>rp_Name = ''always'', MaximumRetryCount = 0\<rparr>,
                    NetworkMode = ''host''\<rparr>\<rparr>"

definition includePool1 :: poolFilter where
  "includePool1 = \<lparr>Include = [''pool1''], Exclude = []\<rparr>"

definition excludePool2 :: poolFilter where
  "excludePool2 = \<lparr>Include = [''pool1''], Exclude = [''pool2'']\<rparr>"

definition oneCluster :: clusterClient where
  "oneCluster =
     \<lparr>Namespace = ''tsuru'', daemonSets = Map.empty, apiCalls = [], apiFaults = (\<lambda>h k. None)\<rparr>"

definition daemonOfPool1 :: daemonSet where
  "daemonOfPool1 =
     desiredDaemonSet envK oneCluster (withDefaultBinds envK bsConfig) ''pool1''
       (Map.empty(alphaAffinityAnnotation \<mapsto> marshalText (affinityOf (nodeReqOf envK includePool1))))
       (Some (affinityOf (nodeReqOf envK includePool1)))"

definition clusterWithDaemon :: clusterClient where
  "clusterWithDaemon =
     \<lparr>Namespace = ''tsuru'',
      daemonSets = [''node-container-big-sibling-pool-pool1'' \<mapsto> daemonOfPool1],
      apiCalls = [],
      apiFaults = (\<lambda>h k. None)\<rparr>"

text \<open>
  An environment in which restoring web always fails, whatever was called before, and
  every other call succeeds.
\<close>

definition faultsP :: faults where
  "faultsP h k = (if k = Deploy ''myapp'' ''web'' ''v1'' then Some (External ''timeout'') else None)"

section \<open>Properties of the container lifecycle primitive\<close>

lemma messages_distinct: "distinct [msgInspect, msgParse, msgMissing, msgNoIp]"
  by (simp add: msgInspect_def msgParse_def msgMissing_def msgNoIp_def)

lemma unmarshalMap_malformed:
  "json_decode env t = None \<Longrightarrow> \<exists>e. unmarshalMap env t = Inl e"
  by (simp add: unmarshalMap_def)


text \<open>
  Claim C10. With the runtime binary configured, each of the four failure causes makes
  \<open>ip\<close> return an error and not panic: the inspect command fails; its output is not
  JSON, or is a JSON document that does not fit the map; the member \<open>NetworkSettings\<close> is
  absent or null; the member \<open>IpAddress\<close> of the network settings is the empty string.
  All four errors are made by \<open>errors.New\<close> (one kind), and their four messages differ.
\<close>

theorem ip_failure_causes:
  assumes cfg: "config_GetString env ''docker:binary'' = Inr docker"
      and run: "execute env docker [''inspect'', instanceId c] = (out, err)"
  shows "(err \<noteq> None \<longrightarrow> snd (ip env c) = Return (Inl (ErrorString msgInspect)))
       \<and> (err = None \<and> (json_decode env out = None \<or> (\<exists>e. unmarshalMap env out = Inl e))
            \<longrightarrow> snd (ip env c) = Return (Inl (ErrorString msgParse)))
       \<and> (err = None \<and> (\<exists>result. unmarshalMap env out = Inr result
              \<and> (jsonIndex result ''NetworkSettings'' = None
                   \<or> jsonIndex result ''NetworkSettings'' = Some JNull))
            \<longrightarrow> snd (ip env c) = Return (Inl (ErrorString msgMissing)))
       \<and> (err = None \<and> (\<exists>result ns. unmarshalMap env out = Inr result
              \<and> jsonIndex result ''NetworkSettings'' = Some (JObject ns)
              \<and> jsonIndex ns ''IpAddress'' = Some (JString ''''))
            \<longrightarrow> snd (ip env c) = Return (Inl (ErrorString msgNoIp)))
       \<and> distinct [msgInspect, msgParse, msgMissing, msgNoIp]"
proof (intro conjI impI)
  assume "err \<noteq> None"
  then show "snd (ip env c) = Return (Inl (ErrorString msgInspect))"
    using cfg run by (auto simp: ip_def runCmd_def)
next
  assume a: "err = None \<and> (json_decode env out = None \<or> (\<exists>e. unmarshalMap env out = Inl e))"
  then obtain e where "unmarshalMap env out = Inl e"
    using unmarshalMap_malformed by blast
  with a show "snd (ip env c) = Return (Inl (ErrorString msgParse))"
    using cfg run by (simp add: ip_def runCmd_def)
next
  assume a: "err = None \<and> (\<exists>result. unmarshalMap env out = Inr result
              \<and> (jsonIndex result ''NetworkSettings'' = None
                   \<or> jsonIndex result ''NetworkSettings'' = Some JNull))"
  then show "snd (ip env c) = Return (Inl (ErrorString msgMissing))"
    using cfg run by (auto simp: ip_def runCmd_def)
next
  assume a: "err = None \<and> (\<exists>result ns. unmarshalMap env out = Inr result
              \<and> jsonIndex result ''NetworkSettings'' = Some (JObject ns)
              \<and> jsonIndex ns ''IpAddress'' = Some (JString ''''))"
  then show "snd (ip env c) = Return (Inl (ErrorString msgNoIp))"
    using cfg run by (auto simp: ip_def runCmd_def)
next
  show "distinct [msgInspect, msgParse, msgMissing, msgNoIp]"
    by (rule messages_distinct)
qed

theorem ip_failure_causes_witness:
  "snd (ip (dockerEnvWith ('''', Some (External ''exit status 1'')) None) someContainer)
     = Return (Inl (ErrorString msgInspect))
   \<and> snd (ip (dockerEnvWith (''{'', None) None) someContainer)
     = Return (Inl (ErrorString msgParse))
   \<and> snd (ip (dockerEnvWith (''{NetworkSettings: null}'', None)
               (Some (JObject [(''NetworkSettings'', JNull)]))) someContainer)
     = Return (Inl (ErrorString msgMissing))
   \<and> snd (ip (dockerEnvWith (''{NetworkSettings: {IpAddress: empty}}'', None)
               (Some (JObject [(''NetworkSettings'', JObject [(''IpAddress'', JString '''')])]))) someContainer)
     = Return (Inl (ErrorString msgNoIp))"
proof -
  let ?c = someContainer
  let ?e1 = "dockerEnvWith ('''', Some (External ''exit status 1'')) None"
  let ?e2 = "dockerEnvWith (''{'', None) None"
  let ?e3 = "dockerEnvWith (''{NetworkSettings: null}'', None)
               (Some (JObject [(''NetworkSettings'', JNull)]))"
  let ?e4 = "dockerEnvWith (''{NetworkSettings: {IpAddress: empty}}'', None)
               (Some (JObject [(''NetworkSettings'', JObject [(''IpAddress'', JString '''')])]))"
  have c1: "config_GetString ?e1 ''docker:binary'' = Inr ''/usr/bin/docker''"
    and c2: "config_GetString ?e2 ''docker:binary'' = Inr ''/usr/bin/docker''"
    and c3: "config_GetString ?e3 ''docker:binary'' = Inr ''/usr/bin/docker''"
    and c4: "config_GetString ?e4 ''docker:binary'' = Inr ''/usr/bin/docker''"
    by (simp_all add: dockerEnvWith_def)
  have r1: "execute ?e1 ''/usr/bin/docker'' [''inspect'', instanceId ?c] = ('''', Some (External ''exit status 1''))"
    and r2: "execute ?e2 ''/usr/bin/docker'' [''inspect'', instanceId ?c] = (''{'', None)"
    and r3: "execute ?e3 ''/usr/bin/docker'' [''inspect'', instanceId ?c] = (''{NetworkSettings: null}'', None)"
    and r4: "execute ?e4 ''/usr/bin/docker'' [''inspect'', instanceId ?c]
               = (''{NetworkSettings: {IpAddress: empty}}'', None)"
    by (simp_all add: dockerEnvWith_def)
  show ?thesis
    using ip_failure_causes [OF c1 r1] ip_failure_causes [OF c2 r2]
          ip_failure_causes [OF c3 r3] ip_failure_causes [OF c4 r4]
    by (simp add: dockerEnvWith_def unmarshalMap_def jsonIndex_def)
qed

text \<open>
  Outside the four causes: a \<open>NetworkSettings\<close> object without an \<open>IpAddress\<close> member
  reaches the unchecked type assertion of line 66, and the call panics.
\<close>

lemma ip_panics_without_IpAddress:
  assumes "config_GetString env ''docker:binary'' = Inr docker"
      and "execute env docker [''inspect'', instanceId c] = (out, None)"
      and "unmarshalMap env out = Inr result"
      and "jsonIndex result ''NetworkSettings'' = Some (JObject ns)"
      and "jsonIndex ns ''IpAddress'' = None"
  shows "is_Panic (snd (ip env c))"
  using assms by (simp add: ip_def runCmd_def)

section \<open>Properties of the process deployment reconciler\<close>

subsection \<open>What one call does\<close>

lemma deploy_fst [simp]:
  "fst (deploy f a p img c) = f (calls c) (Deploy (GetName a) p img)"
  by (simp add: deploy_def Let_def record_call_def split: option.splits)

lemma deploy_calls [simp]:
  "calls (snd (deploy f a p img c)) =
     calls c @ [(Deploy (GetName a) p img, f (calls c) (Deploy (GetName a) p img))]"
  by (simp add: deploy_def Let_def record_call_def split: option.splits)

lemma deploy_services [simp]:
  "services (snd (deploy f a p img c)) =
     (if f (calls c) (Deploy (GetName a) p img) = None
      then (services c)(GetName a := (services c (GetName a))(p \<mapsto> img))
      else services c)"
  by (simp add: deploy_def Let_def record_call_def split: option.splits)

lemma deploy_imageHistory [simp]:
  "imageHistory (snd (deploy f a p img c)) = imageHistory c"
  by (simp add: deploy_def Let_def record_call_def split: option.splits)

lemma removeService_fst [simp]:
  "fst (removeService f a p c) = f (calls c) (RemoveService (GetName a) p)"
  by (simp add: removeService_def Let_def record_call_def split: option.splits)

lemma removeService_calls [simp]:
  "calls (snd (removeService f a p c)) =
     calls c @ [(RemoveService (GetName a) p, f (calls c) (RemoveService (GetName a) p))]"
  by (simp add: removeService_def Let_def record_call_def split: option.splits)

lemma removeService_services [simp]:
  "services (snd (removeService f a p c)) =
     (if f (calls c) (RemoveService (GetName a) p) = None
      then (services c)(GetName a := (services c (GetName a))(p := None))
      else services c)"
  by (simp add: removeService_def Let_def record_call_def split: option.splits)

lemma removeService_imageHistory [simp]:
  "imageHistory (snd (removeService f a p c)) = imageHistory c"
  by (simp add: removeService_def Let_def record_call_def split: option.splits)

lemma Append_fst [simp]:
  "fst (AppendAppImageName_op f n img c) = f (calls c) (AppendAppImageName n img)"
  by (simp add: AppendAppImageName_op_def Let_def record_call_def split: option.splits)

lemma Append_calls [simp]:
  "calls (snd (AppendAppImageName_op f n img c)) =
     calls c @ [(AppendAppImageName n img, f (calls c) (AppendAppImageName n img))]"
  by (simp add: AppendAppImageName_op_def Let_def record_call_def split: option.splits)

lemma Append_services [simp]:
  "services (snd (AppendAppImageName_op f n img c)) = services c"
  by (simp add: AppendAppImageName_op_def Let_def record_call_def split: option.splits)

lemma Append_imageHistory [simp]:
  "imageHistory (snd (AppendAppImageName_op f n img c)) =
     (if f (calls c) (AppendAppImageName n img) = None
      then (imageHistory c)(n := imageHistory c n @ [img])
      else imageHistory c)"
  by (simp add: AppendAppImageName_op_def Let_def record_call_def split: option.splits)

lemma rollbackOne_calls [simp]:
  "calls (rollbackOne f args p c) =
     calls c @ [(spec_rollbackCall args p, f (calls c) (spec_rollbackCall args p))]"
  by (simp add: rollbackOne_def spec_rollbackCall_def log_Errorf_def split_beta
           split: option.splits)

lemma rollbackOne_services [simp]:
  "services (rollbackOne f args p c) =
     (if f (calls c) (spec_rollbackCall args p) = None
      then (services c)(GetName (app args) := (services c (GetName (app args)))(p := spec_rolledBack args p))
      else services c)"
  by (simp add: rollbackOne_def spec_rollbackCall_def spec_rolledBack_def log_Errorf_def split_beta
           split: option.splits)

lemma rollbackOne_imageHistory [simp]:
  "imageHistory (rollbackOne f args p c) = imageHistory c"
  by (simp add: rollbackOne_def log_Errorf_def split_beta split: option.splits)

lemma removeOne_calls [simp]:
  "calls (removeOne f args p c) =
     calls c @ [(RemoveService (GetName (app args)) p, f (calls c) (RemoveService (GetName (app args)) p))]"
  by (simp add: removeOne_def log_Errorf_def split_beta split: option.splits prod.splits)

lemma removeOne_services [simp]:
  "services (removeOne f args p c) =
     (if f (calls c) (RemoveService (GetName (app args)) p) = None
      then (services c)(GetName (app args) := (services c (GetName (app args)))(p := None))
      else services c)"
  by (simp add: removeOne_def log_Errorf_def split_beta split: option.splits prod.splits)

lemma removeOne_imageHistory [simp]:
  "imageHistory (removeOne f args p c) = imageHistory c"
  by (simp add: removeOne_def log_Errorf_def split_beta split: option.splits prod.splits)

subsection \<open>The loops\<close>

lemma rollback_imageHistory [simp]:
  "imageHistory (rollbackAddedProcesses f args ps c) = imageHistory c"
  by (induction ps arbitrary: c) simp_all

lemma deployLoop_shape:
  "\<exists>k. k \<le> length ps \<and>
       fst (fst (deployLoop f args ps d c)) = d @ take k ps \<and>
       (case snd (fst (deployLoop f args ps d c)) of
          None \<Rightarrow> k = length ps \<and>
            calls (snd (deployLoop f args ps d c))
              = calls c @ map (\<lambda>q. (Deploy (GetName (app args)) q (newImage args), None)) ps
        | Some e \<Rightarrow> k < length ps \<and>
            calls (snd (deployLoop f args ps d c))
              = calls c @ map (\<lambda>q. (Deploy (GetName (app args)) q (newImage args), None)) (take k ps)
                  @ [(Deploy (GetName (app args)) (ps ! k) (newImage args), Some e)])"
proof (induction ps arbitrary: d c)
  case Nil
  show ?case by simp
next
  case (Cons p ps)
  let ?k = "Deploy (GetName (app args)) p (newImage args)"
  show ?case
  proof (cases "f (calls c) ?k")
    case (Some e)
    then have "deployLoop f args (p # ps) d c = ((d, Some e), snd (deploy f (app args) p (newImage args) c))"
      by (simp add: prod_eq_iff split: prod.splits)
    then show ?thesis
      using Some by (intro exI[of _ 0]) simp
  next
    case None
    let ?c1 = "snd (deploy f (app args) p (newImage args) c)"
    have step: "deployLoop f args (p # ps) d c = deployLoop f args ps (d @ [p]) ?c1"
      using None by (simp add: prod_eq_iff split: prod.splits)
    obtain k where k: "k \<le> length ps"
      "fst (fst (deployLoop f args ps (d @ [p]) ?c1)) = (d @ [p]) @ take k ps"
      "(case snd (fst (deployLoop f args ps (d @ [p]) ?c1)) of
          None \<Rightarrow> k = length ps \<and>
            calls (snd (deployLoop f args ps (d @ [p]) ?c1))
              = calls ?c1 @ map (\<lambda>q. (Deploy (GetName (app args)) q (newImage args), None)) ps
        | Some e \<Rightarrow> k < length ps \<and>
            calls (snd (deployLoop f args ps (d @ [p]) ?c1))
              = calls ?c1 @ map (\<lambda>q. (Deploy (GetName (app args)) q (newImage args), None)) (take k ps)
                  @ [(Deploy (GetName (app args)) (ps ! k) (newImage args), Some e)])"
      using Cons.IH[of "d @ [p]" ?c1] by blast
    show ?thesis
      using k None unfolding step
      by (intro exI[of _ "Suc k"]) (simp split: option.splits)
  qed
qed

lemma rollback_services_other:
  "q \<notin> set ps \<Longrightarrow> services (rollbackAddedProcesses f args ps c) b q = services c b q"
  by (induction ps arbitrary: c) auto

lemma rollback_calls:
  "\<exists>rs. length rs = length ps \<and>
        calls (rollbackAddedProcesses f args ps c) = calls c @ zip (map (spec_rollbackCall args) ps) rs \<and>
        (distinct ps \<longrightarrow> (\<forall>i<length ps. rs ! i = None \<longrightarrow>
           services (rollbackAddedProcesses f args ps c) (GetName (app args)) (ps ! i)
             = spec_rolledBack args (ps ! i)))"
proof (induction ps arbitrary: c)
  case Nil
  show ?case by simp
next
  case (Cons p ps)
  let ?a = "GetName (app args)"
  let ?r = "f (calls c) (spec_rollbackCall args p)"
  let ?c1 = "rollbackOne f args p c"
  obtain rs where rs: "length rs = length ps"
    "calls (rollbackAddedProcesses f args ps ?c1) = calls ?c1 @ zip (map (spec_rollbackCall args) ps) rs"
    "distinct ps \<longrightarrow> (\<forall>i<length ps. rs ! i = None \<longrightarrow>
       services (rollbackAddedProcesses f args ps ?c1) ?a (ps ! i) = spec_rolledBack args (ps ! i))"
    using Cons.IH[of ?c1] by blast
  have len: "length (?r # rs) = length (p # ps)"
    using rs(1) by simp
  have tr: "calls (rollbackAddedProcesses f args (p # ps) c)
      = calls c @ zip (map (spec_rollbackCall args) (p # ps)) (?r # rs)"
    using rs(2) by simp
  have eff: "distinct (p # ps) \<longrightarrow> (\<forall>i<length (p # ps). (?r # rs) ! i = None \<longrightarrow>
       services (rollbackAddedProcesses f args (p # ps) c) ?a ((p # ps) ! i)
         = spec_rolledBack args ((p # ps) ! i))"
  proof (intro impI allI)
    fix i
    assume d: "distinct (p # ps)" and i: "i < length (p # ps)" and ok: "(?r # rs) ! i = None"
    show "services (rollbackAddedProcesses f args (p # ps) c) ?a ((p # ps) ! i)
         = spec_rolledBack args ((p # ps) ! i)"
    proof (cases i)
      case 0
      have "p \<notin> set ps" using d by simp
      then have "services (rollbackAddedProcesses f args ps ?c1) ?a p = services ?c1 ?a p"
        by (rule rollback_services_other)
      then show ?thesis using 0 ok by simp
    next
      case (Suc j)
      then show ?thesis using rs(3) d i ok by simp
    qed
  qed
  from len tr eff show ?case by blast
qed

lemma toDeploy_sorted:
  "sorted (sort (processNames d)) \<and> distinct (sort (processNames d))
     \<and> set (sort (processNames d)) = fst ` set (Processes d)"
  by (simp add: processNames_def)


lemmas scenario_defs =
  myapp_def argsC_def clusterC_def faultsC_def

lemmas swarm_eval =
  updateServices_Forward_def updateServices_Backward_def updateImageInDB_Forward_def
  removeOldServices_Forward_def deploy_def removeService_def AppendAppImageName_op_def
  record_call_def log_Errorf_def rollbackOne_def removeOne_def hasProcess_def processNames_def
  set_FromMap_def set_Difference_def Let_def split_beta


subsection \<open>update-services: deployment order, stop at the first failure, rollback\<close>

text \<open>
  Claim C2. \<open>updateServices.Forward\<close> deploys the processes of the new image in ascending
  lexicographic order of their names. Every run has one of two shapes. Either every
  deployment succeeds, the calls made are exactly the deployments of all names in that
  order, and the names are returned. Or the deployment at some position \<open>k\<close> fails with an
  error \<open>e\<close>: then the calls made are the successful deployments of the \<open>k\<close> names before
  it, the failed one, and then, for each of those \<open>k\<close> names in the same order, the
  rollback call of the specification (redeploy at the current image when the current
  image defines the process, remove the Service when it does not); nothing after position
  \<open>k\<close> is deployed, the result is the error \<open>e\<close> itself, and wherever a rollback call
  succeeded the process runs the current image, or has no Service when the current image
  does not define it.
\<close>

theorem updateServices_Forward_stops_and_rolls_back:
  "let names = sort (processNames (newImgData args)); a = GetName (app args) in
   sorted names \<and> distinct names \<and> set names = fst ` set (Processes (newImgData args)) \<and>
   (\<exists>k outcome c'.
      updateServices_Forward f \<lparr>fw_Params = [args], Previous = prev\<rparr> c = Return (outcome, c') \<and>
      k \<le> length names \<and>
      ((k = length names \<and> outcome = Inr (Strings names) \<and>
        calls c' = calls c @ map (\<lambda>q. (Deploy a q (newImage args), None)) names)
       \<or>
       (k < length names \<and>
        (\<exists>e rs. outcome = Inl e \<and> length rs = k \<and>
           calls c' = calls c
             @ map (\<lambda>q. (Deploy a q (newImage args), None)) (take k names)
             @ [(Deploy a (names ! k) (newImage args), Some e)]
             @ zip (map (spec_rollbackCall args) (take k names)) rs \<and>
           (\<forall>i<k. rs ! i = None \<longrightarrow>
              services c' a (names ! i) = spec_rolledBack args (names ! i))))))"
proof -
  define names where "names = sort (processNames (newImgData args))"
  define a where "a = GetName (app args)"
  define loop where "loop = deployLoop f args names [] c"
  have srt: "sorted names \<and> distinct names \<and> set names = fst ` set (Processes (newImgData args))"
    unfolding names_def by (rule toDeploy_sorted)
  obtain k where k: "k \<le> length names" "fst (fst loop) = take k names"
    and sh: "(case snd (fst loop) of
          None \<Rightarrow> k = length names \<and>
            calls (snd loop) = calls c @ map (\<lambda>q. (Deploy a q (newImage args), None)) names
        | Some e \<Rightarrow> k < length names \<and>
            calls (snd loop) = calls c @ map (\<lambda>q. (Deploy a q (newImage args), None)) (take k names)
                  @ [(Deploy a (names ! k) (newImage args), Some e)])"
    using deployLoop_shape[of names f args "[]" c] unfolding loop_def a_def by auto
  have fw: "updateServices_Forward f \<lparr>fw_Params = [args], Previous = prev\<rparr> c =
      (case snd (fst loop) of
         Some e \<Rightarrow> Return (Inl e, rollbackAddedProcesses f args (fst (fst loop)) (snd loop))
       | None \<Rightarrow> Return (Inr (Strings (fst (fst loop))), snd loop))"
    unfolding loop_def names_def by (simp add: updateServices_Forward_def split_beta Let_def)
  have main: "\<exists>k outcome c'.
      updateServices_Forward f \<lparr>fw_Params = [args], Previous = prev\<rparr> c = Return (outcome, c') \<and>
      k \<le> length names \<and>
      ((k = length names \<and> outcome = Inr (Strings names) \<and>
        calls c' = calls c @ map (\<lambda>q. (Deploy a q (newImage args), None)) names)
       \<or>
       (k < length names \<and>
        (\<exists>e rs. outcome = Inl e \<and> length rs = k \<and>
           calls c' = calls c
             @ map (\<lambda>q. (Deploy a q (newImage args), None)) (take k names)
             @ [(Deploy a (names ! k) (newImage args), Some e)]
             @ zip (map (spec_rollbackCall args) (take k names)) rs \<and>
           (\<forall>i<k. rs ! i = None \<longrightarrow>
              services c' a (names ! i) = spec_rolledBack args (names ! i)))))"
  proof (cases "snd (fst loop)")
    case None
    with sh k fw show ?thesis by auto
  next
    case (Some e)
    let ?ps = "take k names"
    let ?c1 = "snd loop"
    from Some sh have klt: "k < length names"
      and tr: "calls ?c1 = calls c @ map (\<lambda>q. (Deploy a q (newImage args), None)) ?ps
                  @ [(Deploy a (names ! k) (newImage args), Some e)]"
      by simp_all
    obtain rs where rs: "length rs = length ?ps"
      "calls (rollbackAddedProcesses f args ?ps ?c1) = calls ?c1 @ zip (map (spec_rollbackCall args) ?ps) rs"
      "distinct ?ps \<longrightarrow> (\<forall>i<length ?ps. rs ! i = None \<longrightarrow>
         services (rollbackAddedProcesses f args ?ps ?c1) a (?ps ! i) = spec_rolledBack args (?ps ! i))"
      using rollback_calls[of ?ps f args ?c1] unfolding a_def by blast
    have d: "distinct ?ps" using srt by simp
    have len: "length rs = k" using rs(1) klt by simp
    have eff: "\<forall>i<k. rs ! i = None \<longrightarrow>
        services (rollbackAddedProcesses f args ?ps ?c1) a (names ! i) = spec_rolledBack args (names ! i)"
      using rs(3) d klt by simp
    have res: "updateServices_Forward f \<lparr>fw_Params = [args], Previous = prev\<rparr> c
        = Return (Inl e, rollbackAddedProcesses f args ?ps ?c1)"
      using fw Some k(2) by simp
    have tr2: "calls (rollbackAddedProcesses f args ?ps ?c1) = calls c
             @ map (\<lambda>q. (Deploy a q (newImage args), None)) ?ps
             @ [(Deploy a (names ! k) (newImage args), Some e)]
             @ zip (map (spec_rollbackCall args) ?ps) rs"
      using rs(2) tr by simp
    from res klt len tr2 eff show ?thesis
      by (intro exI[of _ k] exI[of _ "Inl e"] exI[of _ "rollbackAddedProcesses f args ?ps ?c1"])
         (intro conjI disjI2 exI[of _ e] exI[of _ rs]; simp)
  qed
  show ?thesis
    using srt main unfolding Let_def names_def[symmetric] a_def[symmetric] by blast
qed


theorem updateServices_Forward_stops_and_rolls_back_witness:
  "fst (returned (updateServices_Forward faultsC \<lparr>fw_Params = [argsC], Previous = Nil\<rparr> clusterC))
     = Inl (External ''no capacity'')
   \<and> calls (snd (returned (updateServices_Forward faultsC \<lparr>fw_Params = [argsC], Previous = Nil\<rparr> clusterC)))
     = [(Deploy ''myapp'' ''web'' ''v2'', None),
        (Deploy ''myapp'' ''worker'' ''v2'', Some (External ''no capacity'')),
        (Deploy ''myapp'' ''web'' ''v1'', None)]
   \<and> services (snd (returned (updateServices_Forward faultsC \<lparr>fw_Params = [argsC], Previous = Nil\<rparr> clusterC)))
       ''myapp'' ''web'' = Some ''v1''
   \<and> services (snd (returned (updateServices_Forward faultsC \<lparr>fw_Params = [argsC], Previous = Nil\<rparr> clusterC)))
       ''myapp'' ''worker'' = None"
  using updateServices_Forward_stops_and_rolls_back [of argsC faultsC Nil clusterC]
  by (simp add: scenario_defs swarm_eval)

subsection \<open>The three steps and the pipeline, unfolded\<close>

lemma updateServices_Forward_eq:
  "updateServices_Forward f \<lparr>fw_Params = [args], Previous = prev\<rparr> c =
     (case snd (fst (deployLoop f args (sort (processNames (newImgData args))) [] c)) of
        Some e \<Rightarrow> Return (Inl e, rollbackAddedProcesses f args
                      (fst (fst (deployLoop f args (sort (processNames (newImgData args))) [] c)))
                      (snd (deployLoop f args (sort (processNames (newImgData args))) [] c)))
      | None \<Rightarrow> Return (Inr (Strings (fst (fst (deployLoop f args (sort (processNames (newImgData args))) [] c)))),
                   snd (deployLoop f args (sort (processNames (newImgData args))) [] c)))"
  by (simp add: updateServices_Forward_def split_beta Let_def)

lemma updateImageInDB_Forward_eq:
  "updateImageInDB_Forward f \<lparr>fw_Params = [args], Previous = prev\<rparr> c =
     (case f (calls c) (AppendAppImageName (GetName (app args)) (newImage args)) of
        Some e \<Rightarrow> Return (Inl (Wrap e ''''), snd (AppendAppImageName_op f (GetName (app args)) (newImage args) c))
      | None \<Rightarrow> Return (Inr prev, snd (AppendAppImageName_op f (GetName (app args)) (newImage args) c)))"
proof -
  obtain r c1 where eq: "AppendAppImageName_op f (GetName (app args)) (newImage args) c = (r, c1)"
    by (cases "AppendAppImageName_op f (GetName (app args)) (newImage args) c")
  have "r = f (calls c) (AppendAppImageName (GetName (app args)) (newImage args))"
    using Append_fst[of f "GetName (app args)" "newImage args" c] eq by simp
  then show ?thesis
    using eq by (simp add: updateImageInDB_Forward_def split: option.splits)
qed

lemma removeOldServices_Forward_eq:
  "removeOldServices_Forward f \<lparr>fw_Params = [args], Previous = prev\<rparr> c =
     Return (Inr Nil, removeLoop f args
       (set_Difference (set_FromMap (Processes (currentImgData args)))
                       (set_FromMap (Processes (newImgData args)))) c)"
  by (simp add: removeOldServices_Forward_def Let_def)

lemma Execute_deployPipeline:
  "Execute (deployPipeline f) [args] c =
     (let names = sort (processNames (newImgData args));
          loop = deployLoop f args names [] c;
          c1 = snd loop;
          a = GetName (app args);
          c2 = snd (AppendAppImageName_op f a (newImage args) c1)
      in case snd (fst loop) of
           Some e \<Rightarrow> Return (Inl e, rollbackAddedProcesses f args (fst (fst loop)) c1)
         | None \<Rightarrow>
             (case f (calls c1) (AppendAppImageName a (newImage args)) of
                Some e \<Rightarrow> Return (Inl (Wrap e ''''), rollbackAddedProcesses f args (fst (fst loop)) c2)
              | None \<Rightarrow>
                  Return (Inr Nil, removeLoop f args
                    (set_Difference (set_FromMap (Processes (currentImgData args)))
                                    (set_FromMap (Processes (newImgData args)))) c2)))"
  by (simp add: Execute_def deployPipeline_def updateServices_def updateImageInDB_def
        removeOldServices_def updateServices_Forward_eq updateImageInDB_Forward_eq
        removeOldServices_Forward_eq updateServices_Backward_def Let_def
      split: option.splits)

lemma removeLoop_imageHistory [simp]:
  "imageHistory (removeLoop f args ps c) = imageHistory c"
  by (induction ps arbitrary: c) simp_all

lemma removeLoop_services_other:
  "q \<notin> set ps \<Longrightarrow> services (removeLoop f args ps c) b q = services c b q"
  by (induction ps arbitrary: c) auto

lemma removeLoop_services_other_app:
  "b \<noteq> GetName (app args) \<Longrightarrow> services (removeLoop f args ps c) b = services c b"
  by (induction ps arbitrary: c) auto

lemma removeOne_logs [simp]:
  "logs (removeOne f args p c) =
     logs c @ (case f (calls c) (RemoveService (GetName (app args)) p) of
                 None \<Rightarrow> []
               | Some e \<Rightarrow> [(''ignored error removing unwanted service for %s[%s]: %+v'',
                             [S (GetName (app args)), S p, E e])])"
proof -
  obtain r c1 where eq: "removeService f (app args) p c = (r, c1)"
    by (cases "removeService f (app args) p c")
  have r: "r = f (calls c) (RemoveService (GetName (app args)) p)"
    using removeService_fst[of f "app args" p c] eq by simp
  have "logs c1 = logs c"
    using eq by (auto simp: removeService_def Let_def record_call_def split: option.splits)
  then show ?thesis
    using eq r by (simp add: removeOne_def log_Errorf_def split: option.splits)
qed

lemma removeLoop_calls:
  "\<exists>rs. length rs = length ps \<and>
        calls (removeLoop f args ps c)
          = calls c @ zip (map (RemoveService (GetName (app args))) ps) rs \<and>
        logs (removeLoop f args ps c)
          = logs c @ concat (map (\<lambda>(p, r). case r of
                None \<Rightarrow> []
              | Some e \<Rightarrow> [(''ignored error removing unwanted service for %s[%s]: %+v'',
                            [S (GetName (app args)), S p, E e])]) (zip ps rs)) \<and>
        (\<forall>i<length ps. rs ! i = None \<longrightarrow>
           services (removeLoop f args ps c) (GetName (app args)) (ps ! i) = None
           \<or> ps ! i \<in> set (drop (Suc i) ps))"
proof (induction ps arbitrary: c)
  case Nil
  show ?case by simp
next
  case (Cons p ps)
  let ?a = "GetName (app args)"
  let ?r = "f (calls c) (RemoveService ?a p)"
  let ?c1 = "removeOne f args p c"
  let ?line = "\<lambda>(p, r). case r of
                None \<Rightarrow> []
              | Some e \<Rightarrow> [(''ignored error removing unwanted service for %s[%s]: %+v'',
                            [S ?a, S p, E e])]"
  obtain rs where rs: "length rs = length ps"
    "calls (removeLoop f args ps ?c1) = calls ?c1 @ zip (map (RemoveService ?a) ps) rs"
    "logs (removeLoop f args ps ?c1) = logs ?c1 @ concat (map ?line (zip ps rs))"
    "\<forall>i<length ps. rs ! i = None \<longrightarrow>
       services (removeLoop f args ps ?c1) ?a (ps ! i) = None \<or> ps ! i \<in> set (drop (Suc i) ps)"
    using Cons.IH[of ?c1] by blast
  have len: "length (?r # rs) = length (p # ps)"
    using rs(1) by simp
  have tr: "calls (removeLoop f args (p # ps) c)
      = calls c @ zip (map (RemoveService ?a) (p # ps)) (?r # rs)"
    using rs(2) by simp
  have lg: "logs (removeLoop f args (p # ps) c)
      = logs c @ concat (map ?line (zip (p # ps) (?r # rs)))"
    using rs(3) by (simp split: option.splits)
  have eff: "\<forall>i<length (p # ps). (?r # rs) ! i = None \<longrightarrow>
       services (removeLoop f args (p # ps) c) ?a ((p # ps) ! i) = None
       \<or> (p # ps) ! i \<in> set (drop (Suc i) (p # ps))"
  proof (intro impI allI)
    fix i
    assume i: "i < length (p # ps)" and ok: "(?r # rs) ! i = None"
    show "services (removeLoop f args (p # ps) c) ?a ((p # ps) ! i) = None
       \<or> (p # ps) ! i \<in> set (drop (Suc i) (p # ps))"
    proof (cases i)
      case 0
      show ?thesis
      proof (cases "p \<in> set ps")
        case True
        then show ?thesis using 0 by simp
      next
        case False
        then have "services (removeLoop f args ps ?c1) ?a p = services ?c1 ?a p"
          by (rule removeLoop_services_other)
        then show ?thesis using 0 ok by simp
      qed
    next
      case (Suc j)
      then show ?thesis using rs(4) i ok by simp
    qed
  qed
  from len tr lg eff show ?case by blast
qed

lemma deployLoop_imageHistory [simp]:
  "imageHistory (snd (deployLoop f args ps d c)) = imageHistory c"
proof (induction ps arbitrary: d c)
  case Nil
  show ?case by simp
next
  case (Cons p ps)
  show ?case
  proof (cases "f (calls c) (Deploy (GetName (app args)) p (newImage args))")
    case (Some e)
    then have "deployLoop f args (p # ps) d c = ((d, Some e), snd (deploy f (app args) p (newImage args) c))"
      by (simp add: prod_eq_iff split: prod.splits)
    then show ?thesis by simp
  next
    case None
    then have "deployLoop f args (p # ps) d c
        = deployLoop f args ps (d @ [p]) (snd (deploy f (app args) p (newImage args) c))"
      by (simp add: prod_eq_iff split: prod.splits)
    then show ?thesis using Cons.IH by simp
  qed
qed

lemma deployLoop_services:
  "snd (fst (deployLoop f args ps d c)) = None \<Longrightarrow>
     services (snd (deployLoop f args ps d c)) b q
       = (if b = GetName (app args) \<and> q \<in> set ps then Some (newImage args) else services c b q)"
proof (induction ps arbitrary: d c)
  case Nil
  show ?case by simp
next
  case (Cons p ps)
  let ?c1 = "snd (deploy f (app args) p (newImage args) c)"
  show ?case
  proof (cases "f (calls c) (Deploy (GetName (app args)) p (newImage args))")
    case (Some e)
    then have "deployLoop f args (p # ps) d c = ((d, Some e), ?c1)"
      by (simp add: prod_eq_iff split: prod.splits)
    with Cons.prems show ?thesis by simp
  next
    case None
    then have step: "deployLoop f args (p # ps) d c = deployLoop f args ps (d @ [p]) ?c1"
      by (simp add: prod_eq_iff split: prod.splits)
    have "services (snd (deployLoop f args ps (d @ [p]) ?c1)) b q
       = (if b = GetName (app args) \<and> q \<in> set ps then Some (newImage args) else services ?c1 b q)"
      using Cons.IH[of "d @ [p]" ?c1] Cons.prems step by simp
    then show ?thesis
      using None step by simp
  qed
qed

lemma rollbackCall_not_append [simp]:
  "\<not> isAppendAppImageName (spec_rollbackCall args p)"
  by (simp add: spec_rollbackCall_def isAppendAppImageName_def)

lemma zip_fst_pred:
  "(\<And>x. x \<in> set xs \<Longrightarrow> P x) \<Longrightarrow> kr \<in> set (zip xs rs) \<Longrightarrow> P (fst kr)"
  by (cases kr) (auto dest: set_zip_leftD)

lemma only_at_middle:
  assumes "\<And>kr. kr \<in> set xs \<Longrightarrow> \<not> P (fst kr)"
      and "\<And>kr. kr \<in> set ys \<Longrightarrow> \<not> P (fst kr)"
      and "i < length (xs @ [x] @ ys)"
      and "P (fst ((xs @ [x] @ ys) ! i))"
  shows "i = length xs"
proof (rule ccontr)
  assume ne: "i \<noteq> length xs"
  show False
  proof (cases "i < length xs")
    case True
    then have "(xs @ [x] @ ys) ! i = xs ! i" by (simp add: nth_append)
    moreover have "xs ! i \<in> set xs" using True by simp
    ultimately show False using assms(1,4) by auto
  next
    case False
    then have gt: "length xs < i" using ne by simp
    then have "(xs @ [x] @ ys) ! i = ys ! (i - length xs - 1)"
      by (simp add: nth_append nth_Cons')
    moreover have "i - length xs - 1 < length ys" using assms(3) gt by simp
    then have "ys ! (i - length xs - 1) \<in> set ys" by simp
    ultimately show False using assms(2,4) by auto
  qed
qed

lemma obsolete_set:
  "distinct (set_Difference (set_FromMap cur) (set_FromMap new)) \<and>
   set (set_Difference (set_FromMap cur) (set_FromMap new)) = fst ` set cur - fst ` set new"
  by (auto simp: set_Difference_def set_FromMap_def)

lemma pipeline_shapes:
  assumes n: "names = sort (processNames (newImgData args))"
      and a: "a = GetName (app args)"
      and ob: "obsolete = set_Difference (set_FromMap (Processes (currentImgData args)))
                                        (set_FromMap (Processes (newImgData args)))"
      and D: "D = (\<lambda>q. (Deploy a q (newImage args), None))"
      and A: "A = AppendAppImageName a (newImage args)"
      and FW: "FW = updateServices_Forward f \<lparr>fw_Params = [args], Previous = Nil\<rparr> c"
  shows "(\<exists>e k rs c'. Execute (deployPipeline f) [args] c = Return (Inl e, c') \<and>
            FW = Return (Inl e, c') \<and> k < length names \<and> length rs = k \<and>
            calls c' = calls c @ map D (take k names)
               @ [(Deploy a (names ! k) (newImage args), Some e)]
               @ zip (map (spec_rollbackCall args) (take k names)) rs \<and>
            imageHistory c' = imageHistory c)
       \<or> (\<exists>e rs c1 c'. Execute (deployPipeline f) [args] c = Return (Inl (Wrap e ''''), c') \<and>
            FW = Return (Inr (Strings names), c1) \<and> length rs = length names \<and>
            calls c' = calls c @ map D names @ [(A, Some e)]
               @ zip (map (spec_rollbackCall args) names) rs \<and>
            imageHistory c' = imageHistory c)
       \<or> (\<exists>rs c1 c'. Execute (deployPipeline f) [args] c = Return (Inr Nil, c') \<and>
            FW = Return (Inr (Strings names), c1) \<and> length rs = length obsolete \<and>
            calls c' = calls c @ map D names @ [(A, None)]
               @ zip (map (RemoveService a) obsolete) rs \<and>
            imageHistory c' = (imageHistory c)(a := imageHistory c a @ [newImage args]) \<and>
            (\<forall>q\<in>set names. services c' a q = Some (newImage args)) \<and>
            (\<forall>i<length obsolete. rs ! i = None \<longrightarrow> services c' a (obsolete ! i) = None) \<and>
            (\<forall>q. q \<notin> set names \<longrightarrow> q \<notin> set obsolete \<longrightarrow> services c' a q = services c a q))"
proof -
  define loop where "loop = deployLoop f args names [] c"
  define c1 where "c1 = snd loop"
  define c2 where "c2 = snd (AppendAppImageName_op f a (newImage args) c1)"
  obtain k where k: "k \<le> length names" "fst (fst loop) = take k names"
    and sh: "(case snd (fst loop) of
          None \<Rightarrow> k = length names \<and> calls c1 = calls c @ map D names
        | Some e \<Rightarrow> k < length names \<and>
            calls c1 = calls c @ map D (take k names)
                  @ [(Deploy a (names ! k) (newImage args), Some e)])"
    using deployLoop_shape[of names f args "[]" c] unfolding loop_def c1_def a D by auto
  have ex: "Execute (deployPipeline f) [args] c =
     (case snd (fst loop) of
           Some e \<Rightarrow> Return (Inl e, rollbackAddedProcesses f args (fst (fst loop)) c1)
         | None \<Rightarrow>
             (case f (calls c1) A of
                Some e \<Rightarrow> Return (Inl (Wrap e ''''), rollbackAddedProcesses f args (fst (fst loop)) c2)
              | None \<Rightarrow> Return (Inr Nil, removeLoop f args obsolete c2)))"
    unfolding loop_def c1_def c2_def n a ob A by (simp add: Execute_deployPipeline Let_def)
  have fw: "FW = (case snd (fst loop) of
        Some e \<Rightarrow> Return (Inl e, rollbackAddedProcesses f args (fst (fst loop)) c1)
      | None \<Rightarrow> Return (Inr (Strings (fst (fst loop))), c1))"
    unfolding FW loop_def c1_def n by (simp add: updateServices_Forward_eq)
  show ?thesis
  proof (cases "snd (fst loop)")
    case (Some e)
    let ?ps = "take k names"
    let ?c' = "rollbackAddedProcesses f args ?ps c1"
    from Some sh have klt: "k < length names"
      and tr: "calls c1 = calls c @ map D ?ps @ [(Deploy a (names ! k) (newImage args), Some e)]"
      by simp_all
    obtain rs where rs: "length rs = length ?ps"
      "calls ?c' = calls c1 @ zip (map (spec_rollbackCall args) ?ps) rs"
      using rollback_calls[of ?ps f args c1] by blast
    have "Execute (deployPipeline f) [args] c = Return (Inl e, ?c')"
      using ex Some k(2) by simp
    moreover have "FW = Return (Inl e, ?c')"
      using fw Some k(2) by simp
    moreover have "length rs = k" using rs(1) klt by simp
    moreover have "calls ?c' = calls c @ map D ?ps
               @ [(Deploy a (names ! k) (newImage args), Some e)]
               @ zip (map (spec_rollbackCall args) ?ps) rs"
      using rs(2) tr by simp
    moreover have "imageHistory ?c' = imageHistory c"
      by (simp add: c1_def loop_def)
    ultimately show ?thesis using klt by blast
  next
    case None
    from None sh k have kk: "fst (fst loop) = names"
      and tr: "calls c1 = calls c @ map D names"
      by simp_all
    have fw': "FW = Return (Inr (Strings names), c1)"
      using fw None kk by simp
    have sv1: "\<And>b q. services c1 b q = (if b = a \<and> q \<in> set names then Some (newImage args) else services c b q)"
      using deployLoop_services[of f args names "[]" c] None unfolding loop_def c1_def a by simp
    have ih1: "imageHistory c1 = imageHistory c"
      by (simp add: c1_def loop_def)
    have tr2: "calls c2 = calls c @ map D names @ [(A, f (calls c1) A)]"
      unfolding c2_def A using tr by simp
    have sv2: "services c2 = services c1"
      unfolding c2_def by simp
    show ?thesis
    proof (cases "f (calls c1) A")
      case (Some e)
      let ?c' = "rollbackAddedProcesses f args names c2"
      obtain rs where rs: "length rs = length names"
        "calls ?c' = calls c2 @ zip (map (spec_rollbackCall args) names) rs"
        using rollback_calls[of names f args c2] by blast
      have "Execute (deployPipeline f) [args] c = Return (Inl (Wrap e ''''), ?c')"
        using ex None Some kk by simp
      moreover have "calls ?c' = calls c @ map D names @ [(A, Some e)]
               @ zip (map (spec_rollbackCall args) names) rs"
        using rs(2) tr2 Some by simp
      moreover have "imageHistory ?c' = imageHistory c"
        using ih1 Some unfolding c2_def A by simp
      ultimately show ?thesis using fw' rs(1) by blast
    next
      case None2: None
      let ?c' = "removeLoop f args obsolete c2"
      obtain rs where rs: "length rs = length obsolete"
        "calls ?c' = calls c2 @ zip (map (RemoveService a) obsolete) rs"
        "\<forall>i<length obsolete. rs ! i = None \<longrightarrow>
           services ?c' a (obsolete ! i) = None \<or> obsolete ! i \<in> set (drop (Suc i) obsolete)"
        using removeLoop_calls[of obsolete f args c2] unfolding a by blast
      have dis: "distinct obsolete" and obs: "set obsolete \<inter> set names = {}"
        unfolding ob n using obsolete_set[of "Processes (currentImgData args)" "Processes (newImgData args)"]
        by (auto simp: processNames_def)
      have e1: "Execute (deployPipeline f) [args] c = Return (Inr Nil, ?c')"
        using ex None None2 by simp
      have e2: "calls ?c' = calls c @ map D names @ [(A, None)]
               @ zip (map (RemoveService a) obsolete) rs"
        using rs(2) tr2 None2 by simp
      have e3: "imageHistory ?c' = (imageHistory c)(a := imageHistory c a @ [newImage args])"
        using ih1 None2 unfolding c2_def A by simp
      have e4: "\<forall>q\<in>set names. services ?c' a q = Some (newImage args)"
      proof
        fix q assume q: "q \<in> set names"
        then have "q \<notin> set obsolete" using obs by auto
        then have "services ?c' a q = services c2 a q"
          by (rule removeLoop_services_other)
        then show "services ?c' a q = Some (newImage args)"
          using sv2 sv1 q by simp
      qed
      have e5: "\<forall>i<length obsolete. rs ! i = None \<longrightarrow> services ?c' a (obsolete ! i) = None"
      proof (intro allI impI)
        fix i assume i: "i < length obsolete" and ok: "rs ! i = None"
        have "obsolete ! i \<notin> set (drop (Suc i) obsolete)"
          using dis i by (metis Cons_nth_drop_Suc distinct.simps(2) distinct_drop)
        then show "services ?c' a (obsolete ! i) = None"
          using rs(3) i ok by blast
      qed
      have e6: "\<forall>q. q \<notin> set names \<longrightarrow> q \<notin> set obsolete \<longrightarrow> services ?c' a q = services c a q"
      proof (intro allI impI)
        fix q assume q: "q \<notin> set names" "q \<notin> set obsolete"
        have "services ?c' a q = services c2 a q"
          using q(2) by (rule removeLoop_services_other)
        then show "services ?c' a q = services c a q"
          using sv2 sv1 q(1) by simp
      qed
      from e1 fw' rs(1) e2 e3 e4 e5 e6 show ?thesis by blast
    qed
  qed
qed

lemma callsSince_append:
  "calls c' = calls c @ t \<Longrightarrow> callsSince c c' = t"
  by (simp add: callsSince_def)

lemma rollback_keeps_target:
  "services c (GetName (app args)) q = spec_rolledBack args q \<Longrightarrow>
   services (rollbackAddedProcesses f args ps c) (GetName (app args)) q = spec_rolledBack args q"
  by (induction ps arbitrary: c) simp_all

subsection \<open>The pipeline: which Services run after a successful deployment\<close>

text \<open>
  Claim C1, as the code has it. If the pipeline update-services, update-image-in-db,
  remove-old-services completes successfully, every \<open>removeService\<close> call it made
  succeeded, and before the run no process outside the current and the new image had a
  Service of the app, then the processes with a running Service of the app are exactly the
  process names of the new image.
\<close>

theorem pipeline_success_converges_when_removals_succeed:
  assumes run: "Execute (deployPipeline f) [args] c = Return (Inr r, c')"
      and rem: "\<forall>kr\<in>set (callsSince c c'). isRemoveService (fst kr) \<longrightarrow> snd kr = None"
      and init: "dom (services c (GetName (app args)))
                   \<subseteq> fst ` set (Processes (currentImgData args)) \<union> fst ` set (Processes (newImgData args))"
  shows "dom (services c' (GetName (app args))) = fst ` set (Processes (newImgData args))"
proof -
  define names where "names = sort (processNames (newImgData args))"
  define a where "a = GetName (app args)"
  define obsolete where "obsolete = set_Difference (set_FromMap (Processes (currentImgData args)))
                                        (set_FromMap (Processes (newImgData args)))"
  define D where "D = (\<lambda>q. (Deploy a q (newImage args), None :: error option))"
  define A where "A = AppendAppImageName a (newImage args)"
  define FW where "FW = updateServices_Forward f \<lparr>fw_Params = [args], Previous = Nil\<rparr> c"
  note sh = pipeline_shapes[OF names_def a_def obsolete_def D_def A_def FW_def]
  have third: "\<exists>rs. length rs = length obsolete \<and>
      calls c' = calls c @ map D names @ [(A, None)] @ zip (map (RemoveService a) obsolete) rs \<and>
      (\<forall>q\<in>set names. services c' a q = Some (newImage args)) \<and>
      (\<forall>i<length obsolete. rs ! i = None \<longrightarrow> services c' a (obsolete ! i) = None) \<and>
      (\<forall>q. q \<notin> set names \<longrightarrow> q \<notin> set obsolete \<longrightarrow> services c' a q = services c a q)"
    using sh
  proof (elim disjE exE conjE)
    fix e k rs c''
    assume "Execute (deployPipeline f) [args] c = Return (Inl e, c'')"
    with run show ?thesis by simp
  next
    fix e rs c1 c''
    assume "Execute (deployPipeline f) [args] c = Return (Inl (Wrap e []), c'')"
    with run show ?thesis by simp
  next
    fix rs c1 c''
    assume ex: "Execute (deployPipeline f) [args] c = Return (Inr Nil, c'')"
      and 1: "length rs = length obsolete"
      and 2: "calls c'' = calls c @ map D names @ [(A, None)] @ zip (map (RemoveService a) obsolete) rs"
      and 3: "\<forall>q\<in>set names. services c'' a q = Some (newImage args)"
      and 4: "\<forall>i<length obsolete. rs ! i = None \<longrightarrow> services c'' a (obsolete ! i) = None"
      and 5: "\<forall>q. q \<notin> set names \<longrightarrow> q \<notin> set obsolete \<longrightarrow> services c'' a q = services c a q"
    from ex run have "c'' = c'" by simp
    with 1 2 3 4 5 show ?thesis by blast
  qed
  then obtain rs where rs: "length rs = length obsolete"
      "calls c' = calls c @ map D names @ [(A, None)] @ zip (map (RemoveService a) obsolete) rs"
      "\<forall>q\<in>set names. services c' a q = Some (newImage args)"
      "\<forall>i<length obsolete. rs ! i = None \<longrightarrow> services c' a (obsolete ! i) = None"
      "\<forall>q. q \<notin> set names \<longrightarrow> q \<notin> set obsolete \<longrightarrow> services c' a q = services c a q"
    by blast
  have nm: "set names = fst ` set (Processes (newImgData args))"
    unfolding names_def by (simp add: processNames_def)
  have ob: "set obsolete = fst ` set (Processes (currentImgData args)) - fst ` set (Processes (newImgData args))"
    unfolding obsolete_def using obsolete_set by blast
  have since: "callsSince c c' = map D names @ [(A, None)] @ zip (map (RemoveService a) obsolete) rs"
    using rs(2) by (rule callsSince_append)
  have gone: "services c' a q = None" if q: "q \<in> set obsolete" for q
  proof -
    obtain i where i: "i < length obsolete" "obsolete ! i = q"
      using q by (auto simp: in_set_conv_nth)
    have "(RemoveService a q, rs ! i) \<in> set (zip (map (RemoveService a) obsolete) rs)"
      using i rs(1) by (simp add: in_set_conv_nth) (rule exI[of _ i], simp)
    then have "(RemoveService a q, rs ! i) \<in> set (callsSince c c')"
      using since by simp
    then have "rs ! i = None"
      using rem by (auto simp: isRemoveService_def)
    then have "services c' a (obsolete ! i) = None"
      using rs(4) i(1) by simp
    then show ?thesis using i(2) by simp
  qed
  have "dom (services c' a) = set names"
  proof (intro set_eqI iffI)
    fix q assume "q \<in> dom (services c' a)"
    then have some: "services c' a q \<noteq> None" by auto
    show "q \<in> set names"
    proof (rule ccontr)
      assume nq: "q \<notin> set names"
      have nob: "q \<notin> set obsolete" using gone[of q] some by auto
      then have "services c' a q = services c a q" using rs(5) nq by simp
      then have "q \<in> dom (services c a)" using some by auto
      then have "q \<in> fst ` set (Processes (currentImgData args)) \<union> fst ` set (Processes (newImgData args))"
        using init unfolding a_def by blast
      then show False using nq nob nm ob by blast
    qed
  next
    fix q assume "q \<in> set names"
    then show "q \<in> dom (services c' a)" using rs(3) by auto
  qed
  then show ?thesis using nm unfolding a_def by simp
qed

theorem pipeline_success_converges_when_removals_succeed_witness:
  "fst (returned (Execute (deployPipeline noFaults) [argsB] clusterB)) = Inr Nil
   \<and> callsSince clusterB (snd (returned (Execute (deployPipeline noFaults) [argsB] clusterB)))
        = [(Deploy ''myapp'' ''web'' ''v2'', None),
           (AppendAppImageName ''myapp'' ''v2'', None),
           (RemoveService ''myapp'' ''worker'', None)]
   \<and> dom (services (snd (returned (Execute (deployPipeline noFaults) [argsB] clusterB))) ''myapp'')
        = {''web''}"
proof -
  let ?X = "Execute (deployPipeline noFaults) [argsB] clusterB"
  have r: "fst (returned ?X) = Inr Nil" and p: "\<not> is_Panic ?X"
    by (simp_all add: Execute_deployPipeline myapp_def argsB_def clusterB_def noFaults_def swarm_eval)
  have run: "?X = Return (Inr Nil, snd (returned ?X))"
    using r p by (cases ?X) (simp_all add: prod_eq_iff)
  have since: "callsSince clusterB (snd (returned ?X))
        = [(Deploy ''myapp'' ''web'' ''v2'', None),
           (AppendAppImageName ''myapp'' ''v2'', None),
           (RemoveService ''myapp'' ''worker'', None)]"
    by (simp add: Execute_deployPipeline callsSince_def myapp_def argsB_def clusterB_def noFaults_def swarm_eval)
  have rem: "\<forall>kr\<in>set (callsSince clusterB (snd (returned ?X))). isRemoveService (fst kr) \<longrightarrow> snd kr = None"
    unfolding since by simp
  have init: "dom (services clusterB (GetName (app argsB)))
                \<subseteq> fst ` set (Processes (currentImgData argsB)) \<union> fst ` set (Processes (newImgData argsB))"
    by (auto simp: clusterB_def argsB_def myapp_def split: if_splits)
  have "dom (services (snd (returned ?X)) (GetName (app argsB))) = fst ` set (Processes (newImgData argsB))"
    using pipeline_success_converges_when_removals_succeed [OF run rem init] .
  then have "dom (services (snd (returned ?X)) ''myapp'') = {''web''}"
    by (simp add: argsB_def myapp_def)
  with r since show ?thesis by simp
qed

text \<open>
  Claim C1 as stated, without the condition on the removals, fails in scenario B:
  remove-old-services logs the failed removal of worker and returns success, so the
  pipeline succeeds while worker, which only the current image declares, keeps its
  Service.
\<close>

theorem pipeline_success_leaves_stale_service:
  "\<not> is_Panic (Execute (deployPipeline faultsB) [argsB] clusterB)
   \<and> fst (returned (Execute (deployPipeline faultsB) [argsB] clusterB)) = Inr Nil
   \<and> dom (services clusterB ''myapp'') = fst ` set (Processes (currentImgData argsB))
   \<and> services (snd (returned (Execute (deployPipeline faultsB) [argsB] clusterB))) ''myapp'' ''worker''
        = Some ''v1''
   \<and> dom (services (snd (returned (Execute (deployPipeline faultsB) [argsB] clusterB))) ''myapp'')
        \<noteq> fst ` set (Processes (newImgData argsB))"
proof -
  let ?X = "Execute (deployPipeline faultsB) [argsB] clusterB"
  have w: "services (snd (returned ?X)) ''myapp'' ''worker'' = Some ''v1''"
    and r: "fst (returned ?X) = Inr Nil" and p: "\<not> is_Panic ?X"
    by (simp_all add: Execute_deployPipeline myapp_def argsB_def clusterB_def faultsB_def swarm_eval)
  have d: "dom (services clusterB ''myapp'') = fst ` set (Processes (currentImgData argsB))"
    by (auto simp: clusterB_def argsB_def)
  have "''worker'' \<in> dom (services (snd (returned ?X)) ''myapp'')"
    using w by auto
  moreover have "''worker'' \<notin> fst ` set (Processes (newImgData argsB))"
    by (simp add: argsB_def)
  ultimately have "dom (services (snd (returned ?X)) ''myapp'') \<noteq> fst ` set (Processes (newImgData argsB))"
    by blast
  with w r p d show ?thesis by blast
qed

subsection \<open>Rollback, run twice\<close>

text \<open>
  In a run of the rollback over a list of names, the call at position \<open>i\<close> is the rollback
  call for the \<open>i\<close>-th name. Where that call succeeded, the process is in its rolled-back
  state at the end of the run. A run leaves the Services as they were exactly when every
  call of it that succeeds finds its process already rolled back.
\<close>

lemma rollback_outcomes:
  "length (callsSince c (rollbackAddedProcesses f args ps c)) = length ps \<and>
   map fst (callsSince c (rollbackAddedProcesses f args ps c)) = map (spec_rollbackCall args) ps"
proof -
  obtain rs where rs: "length rs = length ps"
    "calls (rollbackAddedProcesses f args ps c) = calls c @ zip (map (spec_rollbackCall args) ps) rs"
    using rollback_calls[of ps f args c] by blast
  have "callsSince c (rollbackAddedProcesses f args ps c) = zip (map (spec_rollbackCall args) ps) rs"
    using rs(2) by (rule callsSince_append)
  then show ?thesis using rs(1) by simp
qed

lemma callsSince_rollback_Cons:
  "callsSince c (rollbackAddedProcesses f args ps (rollbackOne f args p c))
     = (spec_rollbackCall args p, f (calls c) (spec_rollbackCall args p))
       # callsSince (rollbackOne f args p c) (rollbackAddedProcesses f args ps (rollbackOne f args p c))"
proof -
  let ?c1 = "rollbackOne f args p c"
  obtain rs where rs:
    "calls (rollbackAddedProcesses f args ps ?c1) = calls ?c1 @ zip (map (spec_rollbackCall args) ps) rs"
    using rollback_calls[of ps f args ?c1] by blast
  have a: "callsSince c (rollbackAddedProcesses f args ps ?c1)
      = (spec_rollbackCall args p, f (calls c) (spec_rollbackCall args p))
        # zip (map (spec_rollbackCall args) ps) rs"
    using rs by (intro callsSince_append) simp
  have b: "callsSince ?c1 (rollbackAddedProcesses f args ps ?c1) = zip (map (spec_rollbackCall args) ps) rs"
    using rs by (rule callsSince_append)
  show ?thesis unfolding a b ..
qed

lemma rollback_succeeded_is_rolled_back:
  "i < length ps \<Longrightarrow>
   snd (callsSince c (rollbackAddedProcesses f args ps c) ! i) = None \<Longrightarrow>
   services (rollbackAddedProcesses f args ps c) (GetName (app args)) (ps ! i)
     = spec_rolledBack args (ps ! i)"
proof (induction ps arbitrary: c i)
  case Nil
  then show ?case by simp
next
  case (Cons p ps)
  let ?c1 = "rollbackOne f args p c"
  show ?case
  proof (cases i)
    case 0
    then have "f (calls c) (spec_rollbackCall args p) = None"
      using Cons.prems(2) by (simp add: callsSince_rollback_Cons)
    then have "services ?c1 (GetName (app args)) p = spec_rolledBack args p"
      by simp
    then have "services (rollbackAddedProcesses f args ps ?c1) (GetName (app args)) p
        = spec_rolledBack args p"
      by (rule rollback_keeps_target)
    then show ?thesis using 0 by simp
  next
    case (Suc j)
    then have "j < length ps"
      and "snd (callsSince ?c1 (rollbackAddedProcesses f args ps ?c1) ! j) = None"
      using Cons.prems by (simp_all add: callsSince_rollback_Cons)
    then have "services (rollbackAddedProcesses f args ps ?c1) (GetName (app args)) (ps ! j)
        = spec_rolledBack args (ps ! j)"
      by (rule Cons.IH)
    then show ?thesis using Suc by simp
  qed
qed

lemma rollback_changes_nothing_iff:
  "services (rollbackAddedProcesses f args ps d) = services d \<longleftrightarrow>
   (\<forall>i<length ps. snd (callsSince d (rollbackAddedProcesses f args ps d) ! i) = None \<longrightarrow>
      services d (GetName (app args)) (ps ! i) = spec_rolledBack args (ps ! i))"
proof
  assume same: "services (rollbackAddedProcesses f args ps d) = services d"
  show "\<forall>i<length ps. snd (callsSince d (rollbackAddedProcesses f args ps d) ! i) = None \<longrightarrow>
      services d (GetName (app args)) (ps ! i) = spec_rolledBack args (ps ! i)"
  proof (intro allI impI)
    fix i assume "i < length ps" "snd (callsSince d (rollbackAddedProcesses f args ps d) ! i) = None"
    then have "services (rollbackAddedProcesses f args ps d) (GetName (app args)) (ps ! i)
        = spec_rolledBack args (ps ! i)"
      by (rule rollback_succeeded_is_rolled_back)
    then show "services d (GetName (app args)) (ps ! i) = spec_rolledBack args (ps ! i)"
      using same by simp
  qed
next
  show "\<forall>i<length ps. snd (callsSince d (rollbackAddedProcesses f args ps d) ! i) = None \<longrightarrow>
      services d (GetName (app args)) (ps ! i) = spec_rolledBack args (ps ! i)
    \<Longrightarrow> services (rollbackAddedProcesses f args ps d) = services d"
  proof (induction ps arbitrary: d)
    case Nil
    show ?case by simp
  next
    case (Cons p ps)
    let ?d1 = "rollbackOne f args p d"
    have first: "f (calls d) (spec_rollbackCall args p) = None \<longrightarrow>
        services d (GetName (app args)) p = spec_rolledBack args p"
      using Cons.prems[rule_format, of 0] by (simp add: callsSince_rollback_Cons)
    have same: "services ?d1 = services d"
    proof (cases "f (calls d) (spec_rollbackCall args p)")
      case None
      then have "services d (GetName (app args)) p = spec_rolledBack args p"
        using first by simp
      then have "(services d (GetName (app args)))(p := spec_rolledBack args p) = services d (GetName (app args))"
        by (metis fun_upd_triv)
      then show ?thesis using None by simp
    next
      case (Some e)
      then show ?thesis by simp
    qed
    have "\<forall>j<length ps. snd (callsSince ?d1 (rollbackAddedProcesses f args ps ?d1) ! j) = None \<longrightarrow>
        services ?d1 (GetName (app args)) (ps ! j) = spec_rolledBack args (ps ! j)"
    proof (intro allI impI)
      fix j assume j: "j < length ps"
        and ok: "snd (callsSince ?d1 (rollbackAddedProcesses f args ps ?d1) ! j) = None"
      have "services d (GetName (app args)) ((p # ps) ! Suc j) = spec_rolledBack args ((p # ps) ! Suc j)"
        using Cons.prems[rule_format, of "Suc j"] j ok by (simp add: callsSince_rollback_Cons)
      then show "services ?d1 (GetName (app args)) (ps ! j) = spec_rolledBack args (ps ! j)"
        using same by simp
    qed
    then have "services (rollbackAddedProcesses f args ps ?d1) = services ?d1"
      by (rule Cons.IH)
    then show ?case using same by simp
  qed
qed

text \<open>
  Claim C9, as the code has it. Running the rollback twice over the same recorded list
  leaves the same Services as running it once, provided no call that failed in the first
  run succeeds at the same position in the second run. This covers a first run without
  failures, calls that fail in both runs, and every environment in which the outcome of a
  call does not depend on what was called before.
\<close>

theorem rollback_twice_same_unless_failed_call_recovers:
  assumes "\<forall>i<length ps.
             snd (callsSince c (rollbackAddedProcesses f args ps c) ! i) \<noteq> None \<longrightarrow>
             snd (callsSince (rollbackAddedProcesses f args ps c)
                    (rollbackAddedProcesses f args ps (rollbackAddedProcesses f args ps c)) ! i) \<noteq> None"
  shows "services (rollbackAddedProcesses f args ps (rollbackAddedProcesses f args ps c))
           = services (rollbackAddedProcesses f args ps c)"
proof -
  let ?c1 = "rollbackAddedProcesses f args ps c"
  have "\<forall>i<length ps. snd (callsSince ?c1 (rollbackAddedProcesses f args ps ?c1) ! i) = None \<longrightarrow>
      services ?c1 (GetName (app args)) (ps ! i) = spec_rolledBack args (ps ! i)"
  proof (intro allI impI)
    fix i assume i: "i < length ps"
      and ok2: "snd (callsSince ?c1 (rollbackAddedProcesses f args ps ?c1) ! i) = None"
    have "snd (callsSince c ?c1 ! i) = None"
    proof (rule ccontr)
      assume "snd (callsSince c ?c1 ! i) \<noteq> None"
      then have "snd (callsSince ?c1 (rollbackAddedProcesses f args ps ?c1) ! i) \<noteq> None"
        using assms i by simp
      then show False using ok2 by simp
    qed
    with i show "services ?c1 (GetName (app args)) (ps ! i) = spec_rolledBack args (ps ! i)"
      by (rule rollback_succeeded_is_rolled_back)
  qed
  then show ?thesis
    by (simp add: rollback_changes_nothing_iff)
qed

theorem rollback_twice_same_unless_failed_call_recovers_witness:
  "callsSince clusterR (rollbackAddedProcesses faultsP argsC [''web'', ''worker''] clusterR)
     = [(Deploy ''myapp'' ''web'' ''v1'', Some (External ''timeout'')),
        (RemoveService ''myapp'' ''worker'', None)]
   \<and> callsSince (rollbackAddedProcesses faultsP argsC [''web'', ''worker''] clusterR)
        (rollbackAddedProcesses faultsP argsC [''web'', ''worker'']
           (rollbackAddedProcesses faultsP argsC [''web'', ''worker''] clusterR))
     = [(Deploy ''myapp'' ''web'' ''v1'', Some (External ''timeout'')),
        (RemoveService ''myapp'' ''worker'', None)]
   \<and> services (rollbackAddedProcesses faultsP argsC [''web'', ''worker'']
                 (rollbackAddedProcesses faultsP argsC [''web'', ''worker''] clusterR))
       = services (rollbackAddedProcesses faultsP argsC [''web'', ''worker''] clusterR)"
proof -
  let ?c1 = "rollbackAddedProcesses faultsP argsC [''web'', ''worker''] clusterR"
  let ?c2 = "rollbackAddedProcesses faultsP argsC [''web'', ''worker''] ?c1"
  have first: "callsSince clusterR ?c1
     = [(Deploy ''myapp'' ''web'' ''v1'', Some (External ''timeout'')),
        (RemoveService ''myapp'' ''worker'', None)]"
    by (simp add: callsSince_def spec_rollbackCall_def hasProcess_def argsC_def myapp_def
          clusterR_def faultsP_def)
  have second: "callsSince ?c1 ?c2
     = [(Deploy ''myapp'' ''web'' ''v1'', Some (External ''timeout'')),
        (RemoveService ''myapp'' ''worker'', None)]"
    by (simp add: callsSince_def spec_rollbackCall_def hasProcess_def argsC_def myapp_def
          clusterR_def faultsP_def)
  have hyp: "\<forall>i<length [''web'', ''worker''].
             snd (callsSince clusterR ?c1 ! i) \<noteq> None \<longrightarrow> snd (callsSince ?c1 ?c2 ! i) \<noteq> None"
    unfolding first second by simp
  show ?thesis
    using first second rollback_twice_same_unless_failed_call_recovers [OF hyp] by simp
qed

text \<open>
  Claim C9 as stated, for every run, fails: the rollback only logs a failed restore and
  goes on. When the restore of web fails in the first run and succeeds in the second, web
  runs \<open>v2\<close> after one run and \<open>v1\<close> after two.
\<close>

theorem rollback_twice_differs_after_failed_first_run:
  "callsSince clusterR (rollbackAddedProcesses faultsR argsC [''web''] clusterR)
     = [(Deploy ''myapp'' ''web'' ''v1'', Some (External ''timeout''))]
   \<and> callsSince (rollbackAddedProcesses faultsR argsC [''web''] clusterR)
        (rollbackAddedProcesses faultsR argsC [''web'']
           (rollbackAddedProcesses faultsR argsC [''web''] clusterR))
     = [(Deploy ''myapp'' ''web'' ''v1'', None)]
   \<and> services (rollbackAddedProcesses faultsR argsC [''web'']
               (rollbackAddedProcesses faultsR argsC [''web''] clusterR)) ''myapp'' ''web'' = Some ''v1''
   \<and> services (rollbackAddedProcesses faultsR argsC [''web''] clusterR) ''myapp'' ''web'' = Some ''v2''
   \<and> services (rollbackAddedProcesses faultsR argsC [''web'']
               (rollbackAddedProcesses faultsR argsC [''web''] clusterR))
       \<noteq> services (rollbackAddedProcesses faultsR argsC [''web''] clusterR)"
proof -
  have run1: "callsSince clusterR (rollbackAddedProcesses faultsR argsC [''web''] clusterR)
     = [(Deploy ''myapp'' ''web'' ''v1'', Some (External ''timeout''))]"
    by (simp add: callsSince_def spec_rollbackCall_def hasProcess_def argsC_def myapp_def
          clusterR_def faultsR_def)
  have run2: "callsSince (rollbackAddedProcesses faultsR argsC [''web''] clusterR)
        (rollbackAddedProcesses faultsR argsC [''web'']
           (rollbackAddedProcesses faultsR argsC [''web''] clusterR))
     = [(Deploy ''myapp'' ''web'' ''v1'', None)]"
    by (simp add: callsSince_def spec_rollbackCall_def hasProcess_def argsC_def myapp_def
          clusterR_def faultsR_def)
  have once: "services (rollbackAddedProcesses faultsR argsC [''web''] clusterR) ''myapp'' ''web'' = Some ''v2''"
    by (simp add: spec_rollbackCall_def spec_rolledBack_def hasProcess_def argsC_def myapp_def
          clusterR_def faultsR_def)
  have twice: "services (rollbackAddedProcesses faultsR argsC [''web'']
               (rollbackAddedProcesses faultsR argsC [''web''] clusterR)) ''myapp'' ''web'' = Some ''v1''"
    by (simp add: spec_rollbackCall_def spec_rolledBack_def hasProcess_def argsC_def myapp_def
          clusterR_def faultsR_def)
  have "services (rollbackAddedProcesses faultsR argsC [''web'']
               (rollbackAddedProcesses faultsR argsC [''web''] clusterR))
       \<noteq> services (rollbackAddedProcesses faultsR argsC [''web''] clusterR)"
  proof
    assume "services (rollbackAddedProcesses faultsR argsC [''web'']
               (rollbackAddedProcesses faultsR argsC [''web''] clusterR))
       = services (rollbackAddedProcesses faultsR argsC [''web''] clusterR)"
    then have "services (rollbackAddedProcesses faultsR argsC [''web'']
               (rollbackAddedProcesses faultsR argsC [''web''] clusterR)) ''myapp'' ''web''
       = services (rollbackAddedProcesses faultsR argsC [''web''] clusterR) ''myapp'' ''web''"
      by simp
    then show False
      unfolding once twice by simp
  qed
  with run1 run2 once twice show ?thesis by simp
qed

subsection \<open>Where the image-history call can stand in a run\<close>

lemma deploys_not_append:
  "kr \<in> set (map (\<lambda>q. (Deploy a q img, r)) names) \<Longrightarrow> \<not> isAppendAppImageName (fst kr)"
  by (auto simp: isAppendAppImageName_def)

lemma rollbacks_not_append:
  "kr \<in> set (zip (map (spec_rollbackCall args) ps) rs) \<Longrightarrow> \<not> isAppendAppImageName (fst kr)"
  by (cases kr) (auto dest!: set_zip_leftD)

lemma removes_not_append:
  "kr \<in> set (zip (map (RemoveService a) ps) rs) \<Longrightarrow> \<not> isAppendAppImageName (fst kr)"
  by (cases kr) (auto dest!: set_zip_leftD simp: isAppendAppImageName_def)

lemma append_position:
  fixes t :: "(call \<times> error option) list"
  assumes t: "t = map (\<lambda>q. (Deploy a q img, None)) names @ [x] @ ys"
      and ys: "\<And>kr. kr \<in> set ys \<Longrightarrow> \<not> isAppendAppImageName (fst kr)"
      and i: "i < length t" "isAppendAppImageName (fst (t ! i))"
      and p: "p \<in> set names"
  shows "(Deploy a p img, None) \<in> set (take i t)"
proof -
  let ?xs = "map (\<lambda>q. (Deploy a q img, None :: error option)) names"
  have a1: "\<And>kr. kr \<in> set ?xs \<Longrightarrow> \<not> isAppendAppImageName (fst kr)"
    by (rule deploys_not_append)
  from i have i1: "i < length (?xs @ [x] @ ys)"
    and i2: "isAppendAppImageName (fst ((?xs @ [x] @ ys) ! i))"
    unfolding t by simp_all
  have "i = length ?xs"
    using a1 ys i1 i2 by (rule only_at_middle)
  then have "take i t = ?xs"
    unfolding t by simp
  then show ?thesis using p by auto
qed

subsection \<open>The image-history record and the deployment\<close>

text \<open>
  Claim C3. In every run of the pipeline update-services, update-image-in-db,
  remove-old-services: when update-services fails, the pipeline returns that error, no
  \<open>AppendAppImageName\<close> call is made and the image history is unchanged; wherever an
  \<open>AppendAppImageName\<close> call stands in the calls of the run, every process of the new image
  has a successful deployment at the new image before it; and when the image history has
  changed, the run succeeded, the change is one appended entry for the new image, and
  every process of the new image was deployed successfully. The pipeline never panics.
\<close>

theorem image_history_only_after_full_deploy:
  "\<exists>outcome c'.
     Execute (deployPipeline f) [args] c = Return (outcome, c') \<and>
     (\<forall>e c1. updateServices_Forward f \<lparr>fw_Params = [args], Previous = Nil\<rparr> c = Return (Inl e, c1) \<longrightarrow>
        outcome = Inl e \<and> imageHistory c' = imageHistory c \<and>
        (\<forall>kr\<in>set (callsSince c c'). \<not> isAppendAppImageName (fst kr))) \<and>
     (\<forall>i<length (callsSince c c'). isAppendAppImageName (fst (callsSince c c' ! i)) \<longrightarrow>
        (\<forall>p\<in>fst ` set (Processes (newImgData args)).
           (Deploy (GetName (app args)) p (newImage args), None) \<in> set (take i (callsSince c c')))) \<and>
     (imageHistory c' \<noteq> imageHistory c \<longrightarrow>
        outcome = Inr Nil \<and>
        imageHistory c' = (imageHistory c)
           (GetName (app args) := imageHistory c (GetName (app args)) @ [newImage args]) \<and>
        (\<forall>p\<in>fst ` set (Processes (newImgData args)).
           (Deploy (GetName (app args)) p (newImage args), None) \<in> set (callsSince c c')))"
proof -
  define names where "names = sort (processNames (newImgData args))"
  define a where "a = GetName (app args)"
  define obsolete where "obsolete = set_Difference (set_FromMap (Processes (currentImgData args)))
                                        (set_FromMap (Processes (newImgData args)))"
  define D where "D = (\<lambda>q. (Deploy a q (newImage args), None :: error option))"
  define A where "A = AppendAppImageName a (newImage args)"
  define FW where "FW = updateServices_Forward f \<lparr>fw_Params = [args], Previous = Nil\<rparr> c"
  define Goal where "Goal = (\<lambda>outcome c'.
     Execute (deployPipeline f) [args] c = Return (outcome, c') \<and>
     (\<forall>e c1. FW = Return (Inl e, c1) \<longrightarrow>
        outcome = Inl e \<and> imageHistory c' = imageHistory c \<and>
        (\<forall>kr\<in>set (callsSince c c'). \<not> isAppendAppImageName (fst kr))) \<and>
     (\<forall>i<length (callsSince c c'). isAppendAppImageName (fst (callsSince c c' ! i)) \<longrightarrow>
        (\<forall>p\<in>set names. D p \<in> set (take i (callsSince c c')))) \<and>
     (imageHistory c' \<noteq> imageHistory c \<longrightarrow>
        outcome = Inr Nil \<and>
        imageHistory c' = (imageHistory c)(a := imageHistory c a @ [newImage args]) \<and>
        (\<forall>p\<in>set names. D p \<in> set (callsSince c c'))))"
  have nm: "set names = fst ` set (Processes (newImgData args))"
    unfolding names_def by (simp add: processNames_def)
  note sh = pipeline_shapes[OF names_def a_def obsolete_def D_def A_def FW_def]
  have "\<exists>outcome c'. Goal outcome c'"
    using sh
  proof (elim disjE exE conjE)
    fix e k rs c'
    assume ex: "Execute (deployPipeline f) [args] c = Return (Inl e, c')"
      and fw: "FW = Return (Inl e, c')"
      and tr: "calls c' = calls c @ map D (take k names)
               @ [(Deploy a (names ! k) (newImage args), Some e)]
               @ zip (map (spec_rollbackCall args) (take k names)) rs"
      and ih: "imageHistory c' = imageHistory c"
    have since: "callsSince c c' = map D (take k names)
               @ [(Deploy a (names ! k) (newImage args), Some e)]
               @ zip (map (spec_rollbackCall args) (take k names)) rs"
      using tr by (rule callsSince_append)
    have none: "\<not> isAppendAppImageName (fst kr)" if "kr \<in> set (callsSince c c')" for kr
    proof -
      from that consider "kr \<in> set (map D (take k names))"
        | "kr = (Deploy a (names ! k) (newImage args), Some e)"
        | "kr \<in> set (zip (map (spec_rollbackCall args) (take k names)) rs)"
        unfolding since by auto
      then show ?thesis
      proof cases
        case 1
        then show ?thesis unfolding D_def by (rule deploys_not_append)
      next
        case 2
        then show ?thesis by (simp add: isAppendAppImageName_def)
      next
        case 3
        then show ?thesis by (rule rollbacks_not_append)
      qed
    qed
    have never: "\<not> isAppendAppImageName (fst (callsSince c c' ! i))" if "i < length (callsSince c c')" for i
      using that none by simp
    have "Goal (Inl e) c'"
      unfolding Goal_def using ex fw ih none never by auto
    then show ?thesis by blast
  next
    fix e rs c1 c'
    assume ex: "Execute (deployPipeline f) [args] c = Return (Inl (Wrap e []), c')"
      and fw: "FW = Return (Inr (Strings names), c1)"
      and tr: "calls c' = calls c @ map D names @ [(A, Some e)]
               @ zip (map (spec_rollbackCall args) names) rs"
      and ih: "imageHistory c' = imageHistory c"
    have since: "callsSince c c' = map D names @ [(A, Some e)]
               @ zip (map (spec_rollbackCall args) names) rs"
      using tr by (rule callsSince_append)
    have pos: "D p \<in> set (take i (callsSince c c'))"
      if "i < length (callsSince c c')" "isAppendAppImageName (fst (callsSince c c' ! i))" "p \<in> set names"
      for i p
      unfolding D_def
      using since[unfolded D_def] rollbacks_not_append that
      by (rule append_position)
    have "Goal (Inl (Wrap e [])) c'"
      unfolding Goal_def using ex fw ih pos by simp
    then show ?thesis by blast
  next
    fix rs c1 c'
    assume ex: "Execute (deployPipeline f) [args] c = Return (Inr Nil, c')"
      and fw: "FW = Return (Inr (Strings names), c1)"
      and tr: "calls c' = calls c @ map D names @ [(A, None)]
               @ zip (map (RemoveService a) obsolete) rs"
      and ih: "imageHistory c' = (imageHistory c)(a := imageHistory c a @ [newImage args])"
    have since: "callsSince c c' = map D names @ [(A, None)]
               @ zip (map (RemoveService a) obsolete) rs"
      using tr by (rule callsSince_append)
    have pos: "D p \<in> set (take i (callsSince c c'))"
      if "i < length (callsSince c c')" "isAppendAppImageName (fst (callsSince c c' ! i))" "p \<in> set names"
      for i p
      unfolding D_def
      using since[unfolded D_def] removes_not_append that
      by (rule append_position)
    have all: "D p \<in> set (callsSince c c')" if "p \<in> set names" for p
      unfolding since using that by simp
    have "Goal (Inr Nil) c'"
      unfolding Goal_def using ex fw ih pos all by simp
    then show ?thesis by blast
  qed
  then show ?thesis
    unfolding Goal_def FW_def D_def a_def nm by simp
qed

theorem image_history_only_after_full_deploy_witness:
  "fst (returned (Execute (deployPipeline faultsC) [argsC] clusterC)) = Inl (External ''no capacity'')
   \<and> imageHistory (snd (returned (Execute (deployPipeline faultsC) [argsC] clusterC))) ''myapp'' = [''v1'']
   \<and> callsSince clusterC (snd (returned (Execute (deployPipeline faultsC) [argsC] clusterC)))
       = [(Deploy ''myapp'' ''web'' ''v2'', None),
          (Deploy ''myapp'' ''worker'' ''v2'', Some (External ''no capacity'')),
          (Deploy ''myapp'' ''web'' ''v1'', None)]
   \<and> fst (returned (Execute (deployPipeline noFaults) [argsC] clusterC)) = Inr Nil
   \<and> imageHistory (snd (returned (Execute (deployPipeline noFaults) [argsC] clusterC))) ''myapp''
       = [''v1'', ''v2'']
   \<and> callsSince clusterC (snd (returned (Execute (deployPipeline noFaults) [argsC] clusterC)))
       = [(Deploy ''myapp'' ''web'' ''v2'', None),
          (Deploy ''myapp'' ''worker'' ''v2'', None),
          (AppendAppImageName ''myapp'' ''v2'', None)]"
  using image_history_only_after_full_deploy [of faultsC argsC clusterC]
        image_history_only_after_full_deploy [of noFaults argsC clusterC]
  by (simp add: Execute_deployPipeline callsSince_def scenario_defs noFaults_def swarm_eval)

subsection \<open>remove-old-services: failures are logged and dropped\<close>

text \<open>
  Claim C4. \<open>removeOldServices.Forward\<close> calls \<open>removeService\<close> once for every process the
  current image declares and the new image does not, and for no other process. A call that
  fails is logged and the loop goes on to the next process; a call that succeeds leaves
  the process without a Service. The step always returns success (with a nil result), so
  a pipeline that reaches it as its last step reports success.
\<close>

theorem removeOldServices_Forward_swallows_failures:
  "let a = GetName (app args);
       obsolete = set_Difference (set_FromMap (Processes (currentImgData args)))
                                 (set_FromMap (Processes (newImgData args)))
   in distinct obsolete \<and>
      set obsolete = fst ` set (Processes (currentImgData args)) - fst ` set (Processes (newImgData args)) \<and>
      (\<exists>rs c'.
         removeOldServices_Forward f \<lparr>fw_Params = [args], Previous = prev\<rparr> c = Return (Inr Nil, c') \<and>
         run [removeOldServices f] done [args] prev c = Return (Inr Nil, c') \<and>
         length rs = length obsolete \<and>
         calls c' = calls c @ zip (map (RemoveService a) obsolete) rs \<and>
         logs c' = logs c @ concat (map (\<lambda>(p, r). case r of
                None \<Rightarrow> []
              | Some e \<Rightarrow> [(''ignored error removing unwanted service for %s[%s]: %+v'',
                            [S a, S p, E e])]) (zip obsolete rs)) \<and>
         (\<forall>i<length obsolete. rs ! i = None \<longrightarrow> services c' a (obsolete ! i) = None))"
proof -
  define a where "a = GetName (app args)"
  define obsolete where "obsolete = set_Difference (set_FromMap (Processes (currentImgData args)))
                                 (set_FromMap (Processes (newImgData args)))"
  let ?c' = "removeLoop f args obsolete c"
  have dis: "distinct obsolete"
    and st: "set obsolete = fst ` set (Processes (currentImgData args)) - fst ` set (Processes (newImgData args))"
    unfolding obsolete_def using obsolete_set by blast+
  obtain rs where rs: "length rs = length obsolete"
    "calls ?c' = calls c @ zip (map (RemoveService a) obsolete) rs"
    "logs ?c' = logs c @ concat (map (\<lambda>(p, r). case r of
                None \<Rightarrow> []
              | Some e \<Rightarrow> [(''ignored error removing unwanted service for %s[%s]: %+v'',
                            [S a, S p, E e])]) (zip obsolete rs))"
    "\<forall>i<length obsolete. rs ! i = None \<longrightarrow>
       services ?c' a (obsolete ! i) = None \<or> obsolete ! i \<in> set (drop (Suc i) obsolete)"
    using removeLoop_calls[of obsolete f args c] unfolding a_def by blast
  have fw: "removeOldServices_Forward f \<lparr>fw_Params = [args], Previous = prev\<rparr> c = Return (Inr Nil, ?c')"
    unfolding obsolete_def by (rule removeOldServices_Forward_eq)
  have rn: "run [removeOldServices f] done [args] prev c = Return (Inr Nil, ?c')"
    using fw by (simp add: removeOldServices_def)
  have eff: "\<forall>i<length obsolete. rs ! i = None \<longrightarrow> services ?c' a (obsolete ! i) = None"
  proof (intro allI impI)
    fix i assume i: "i < length obsolete" and ok: "rs ! i = None"
    have "obsolete ! i \<notin> set (drop (Suc i) obsolete)"
      using dis i by (metis Cons_nth_drop_Suc distinct.simps(2) distinct_drop)
    moreover have "services ?c' a (obsolete ! i) = None \<or> obsolete ! i \<in> set (drop (Suc i) obsolete)"
      using rs(4) i ok by simp
    ultimately show "services ?c' a (obsolete ! i) = None" by simp
  qed
  have "\<exists>rs c'.
         removeOldServices_Forward f \<lparr>fw_Params = [args], Previous = prev\<rparr> c = Return (Inr Nil, c') \<and>
         run [removeOldServices f] done [args] prev c = Return (Inr Nil, c') \<and>
         length rs = length obsolete \<and>
         calls c' = calls c @ zip (map (RemoveService a) obsolete) rs \<and>
         logs c' = logs c @ concat (map (\<lambda>(p, r). case r of
                None \<Rightarrow> []
              | Some e \<Rightarrow> [(''ignored error removing unwanted service for %s[%s]: %+v'',
                            [S a, S p, E e])]) (zip obsolete rs)) \<and>
         (\<forall>i<length obsolete. rs ! i = None \<longrightarrow> services c' a (obsolete ! i) = None)"
    using fw rn rs(1) rs(2) rs(3) eff
    by (intro exI[of _ rs] exI[of _ ?c']) simp
  then show ?thesis
    using dis st unfolding Let_def a_def[symmetric] obsolete_def[symmetric] by simp
qed

theorem removeOldServices_Forward_swallows_failures_witness:
  "fst (returned (removeOldServices_Forward faultsB \<lparr>fw_Params = [argsD], Previous = Strings [''web'']\<rparr> clusterD))
     = Inr Nil
   \<and> calls (snd (returned (removeOldServices_Forward faultsB \<lparr>fw_Params = [argsD], Previous = Strings [''web'']\<rparr> clusterD)))
     = [(RemoveService ''myapp'' ''worker'', Some (External ''node unreachable'')),
        (RemoveService ''myapp'' ''cron'', None)]
   \<and> logs (snd (returned (removeOldServices_Forward faultsB \<lparr>fw_Params = [argsD], Previous = Strings [''web'']\<rparr> clusterD)))
     = [(''ignored error removing unwanted service for %s[%s]: %+v'',
         [S ''myapp'', S ''worker'', E (External ''node unreachable'')])]
   \<and> services (snd (returned (removeOldServices_Forward faultsB \<lparr>fw_Params = [argsD], Previous = Strings [''web'']\<rparr> clusterD)))
       ''myapp'' ''cron'' = None
   \<and> services (snd (returned (removeOldServices_Forward faultsB \<lparr>fw_Params = [argsD], Previous = Strings [''web'']\<rparr> clusterD)))
       ''myapp'' ''worker'' = Some ''v1''"
  using removeOldServices_Forward_swallows_failures [of argsD faultsB "Strings [''web'']" clusterD "[]"]
  by (simp add: myapp_def argsD_def clusterD_def faultsB_def swarm_eval)

section \<open>Properties of the node-container reconciler\<close>

subsection \<open>The API calls\<close>

lemma Get_found:
  "apiFaults client (apiCalls client) (Get (Namespace client) n) = None \<Longrightarrow>
   daemonSets client n = Some old \<Longrightarrow>
   DaemonSets_Get n client = (Inr old, record_api (Get (Namespace client) n) None client)"
  by (simp add: DaemonSets_Get_def)

lemma Get_absent:
  "apiFaults client (apiCalls client) (Get (Namespace client) n) = None \<Longrightarrow>
   daemonSets client n = None \<Longrightarrow>
   DaemonSets_Get n client
     = (Inl (NotFound n), record_api (Get (Namespace client) n) (Some (NotFound n)) client)"
  by (simp add: DaemonSets_Get_def)

lemma Update_calls:
  "\<exists>r. fst (DaemonSets_Update ds cl) = r \<and>
        apiCalls (snd (DaemonSets_Update ds cl)) = apiCalls cl @ [(Update (Namespace cl) ds, r)] \<and>
        Namespace (snd (DaemonSets_Update ds cl)) = Namespace cl \<and>
        daemonSets (snd (DaemonSets_Update ds cl))
          = (if r = None then (daemonSets cl)(om_Name (ds_ObjectMeta ds) \<mapsto> ds) else daemonSets cl)"
  by (simp add: DaemonSets_Update_def record_api_def Let_def split: option.splits)

lemma Create_calls:
  "\<exists>r. fst (DaemonSets_Create ds cl) = r \<and>
        apiCalls (snd (DaemonSets_Create ds cl)) = apiCalls cl @ [(Create (Namespace cl) ds, r)] \<and>
        Namespace (snd (DaemonSets_Create ds cl)) = Namespace cl \<and>
        daemonSets (snd (DaemonSets_Create ds cl))
          = (if r = None then (daemonSets cl)(om_Name (ds_ObjectMeta ds) \<mapsto> ds) else daemonSets cl)"
  by (simp add: DaemonSets_Create_def record_api_def Let_def split: option.splits)

lemma record_api_simps [simp]:
  "apiCalls (record_api k r cl) = apiCalls cl @ [(k, r)]"
  "Namespace (record_api k r cl) = Namespace cl"
  "daemonSets (record_api k r cl) = daemonSets cl"
  "apiFaults (record_api k r cl) = apiFaults cl"
  by (simp_all add: record_api_def)


lemma full_path_absent:
  assumes absent: "daemonSets client (daemonSetName env (nc_Name config) pool) = None"
      and got: "apiFaults client (apiCalls client)
                  (Get (Namespace client) (daemonSetName env (nc_Name config) pool)) = None"
      and computed: "placementOf env (nodeReqOf env filt) = Inr (affinityAnnotation, affinity)"
  shows "deployNodeContainerForCluster env client config pool filt placementOnly
     = (let dsName = daemonSetName env (nc_Name config) pool;
            client1 = record_api (Get (Namespace client) dsName) (Some (NotFound dsName)) client;
            config1 = withDefaultBinds env config;
            ds = desiredDaemonSet env client1 config1 pool affinityAnnotation affinity
        in (errors_WithStack (fst (DaemonSets_Create ds client1)), config1,
            snd (DaemonSets_Create ds client1)))"
  using Get_absent[OF got absent] computed
  by (simp add: deployNodeContainerForCluster_def IsNotFound_def Let_def split_beta)


lemma splitN_not_Nil:
  "0 < n \<Longrightarrow> splitN s sep n \<noteq> []"
  by (induction s sep n rule: splitN.induct) simp_all

subsection \<open>The concrete setting, evaluated\<close>

lemma placement_includePool1:
  "placementOf envK (nodeReqOf envK includePool1)
     = Inr (Map.empty(alphaAffinityAnnotation \<mapsto> marshalText (affinityOf (nodeReqOf envK includePool1))),
            Some (affinityOf (nodeReqOf envK includePool1)))"
  by (simp add: placementOf_def nodeReqOf_def includePool1_def envK_def)

lemma placement_excludePool2:
  "placementOf envK (nodeReqOf envK excludePool2)
     = Inr (Map.empty(alphaAffinityAnnotation \<mapsto> marshalText (affinityOf (nodeReqOf envK excludePool2))),
            Some (affinityOf (nodeReqOf envK excludePool2)))"
  by (simp add: placementOf_def nodeReqOf_def excludePool2_def envK_def)

lemma dsName_pool1:
  "daemonSetName envK (nc_Name bsConfig) ''pool1'' = ''node-container-big-sibling-pool-pool1''"
  by (simp add: envK_def bsConfig_def)

lemma daemonOfPool1_placement:
  "om_Annotations (pt_ObjectMeta (Template (ds_Spec daemonOfPool1)))
     = Some (Map.empty(alphaAffinityAnnotation \<mapsto> marshalText (affinityOf (nodeReqOf envK includePool1))))"
  "Affinity (pt_Spec (Template (ds_Spec daemonOfPool1))) = Some (affinityOf (nodeReqOf envK includePool1))"
  by (simp_all add: daemonOfPool1_def desiredDaemonSet_def Let_def)


lemmas k8s_eval =
  deployNodeContainerForCluster_def DeployNodeContainer_def forEachCluster_def
  DaemonSets_Get_def DaemonSets_Update_def DaemonSets_Create_def record_api_def
  IsNotFound_def errors_WithStack_def Let_def split_beta

subsection \<open>Placement-only reconciliation\<close>

text \<open>
  Claim C5. When the daemon object of the configuration and pool exists in the cluster, is
  fetched, and \<open>DeployNodeContainer\<close> runs with \<open>placementOnly\<close> set while the computed
  annotation map and affinity both equal (in the sense of \<open>reflect.DeepEqual\<close>) those of the
  existing object's pod template, then the call returns success, the configuration is as
  it was, and the only API call made is the \<open>Get\<close>: no update is issued and the stored
  objects are untouched. Stated for the function run on one cluster and for
  \<open>DeployNodeContainer\<close> over that cluster.
\<close>

theorem placementOnly_matching_is_noop:
  assumes found: "daemonSets client (daemonSetName env (nc_Name config) pool) = Some old"
      and got: "apiFaults client (apiCalls client)
                  (Get (Namespace client) (daemonSetName env (nc_Name config) pool)) = None"
      and computed: "placementOf env (nodeReqOf env filt) = Inr (affinityAnnotation, affinity)"
      and ann: "om_Annotations (pt_ObjectMeta (Template (ds_Spec old))) = Some affinityAnnotation"
      and aff: "Affinity (pt_Spec (Template (ds_Spec old))) = affinity"
  shows "deployNodeContainerForCluster env client config pool filt True
           = (None, config,
              record_api (Get (Namespace client) (daemonSetName env (nc_Name config) pool)) None client)
       \<and> DeployNodeContainer env [client] config pool filt True
           = (None, config,
              [record_api (Get (Namespace client) (daemonSetName env (nc_Name config) pool)) None client])"
proof -
  have one: "deployNodeContainerForCluster env client config pool filt True
           = (None, config,
              record_api (Get (Namespace client) (daemonSetName env (nc_Name config) pool)) None client)"
    using Get_found[OF got found] computed ann aff
    by (simp add: deployNodeContainerForCluster_def)
  then show ?thesis
    by (simp add: DeployNodeContainer_def forEachCluster_def)
qed

theorem placementOnly_matching_is_noop_witness:
  "fst (DeployNodeContainer envK [clusterWithDaemon] bsConfig ''pool1'' includePool1 True) = None
   \<and> fst (snd (DeployNodeContainer envK [clusterWithDaemon] bsConfig ''pool1'' includePool1 True)) = bsConfig
   \<and> map apiCalls (snd (snd (DeployNodeContainer envK [clusterWithDaemon] bsConfig ''pool1'' includePool1 True)))
       = [[(Get ''tsuru'' ''node-container-big-sibling-pool-pool1'', None)]]
   \<and> map daemonSets (snd (snd (DeployNodeContainer envK [clusterWithDaemon] bsConfig ''pool1'' includePool1 True)))
       = [daemonSets clusterWithDaemon]"
proof -
  have found: "daemonSets clusterWithDaemon (daemonSetName envK (nc_Name bsConfig) ''pool1'') = Some daemonOfPool1"
    unfolding dsName_pool1 by (simp add: clusterWithDaemon_def)
  have got: "apiFaults clusterWithDaemon (apiCalls clusterWithDaemon)
               (Get (Namespace clusterWithDaemon) (daemonSetName envK (nc_Name bsConfig) ''pool1'')) = None"
    by (simp add: clusterWithDaemon_def)
  show ?thesis
    using placementOnly_matching_is_noop
            [OF found got placement_includePool1 daemonOfPool1_placement(1) daemonOfPool1_placement(2)]
    unfolding dsName_pool1
    by (simp add: clusterWithDaemon_def)
qed

text \<open>
  Claim C6. When the daemon object exists, is fetched, and \<open>DeployNodeContainer\<close> runs with
  \<open>placementOnly\<close> set while the computed annotation map or the computed affinity differs
  from the existing object's, exactly one \<open>Update\<close> call follows the \<open>Get\<close>. The object it
  sends has the computed annotation map as the pod template's \<open>Annotations\<close> field and the
  computed affinity as the pod spec's \<open>Affinity\<close> field; every other field of the existing
  daemon object (its metadata, selector, update strategy, the template's name, namespace
  and labels, the volumes, restart policy, host-network flag and containers) is as it
  was. The configuration is unchanged, and the stored object is replaced only when the
  update succeeds.
\<close>

theorem placementOnly_update_touches_two_fields:
  assumes found: "daemonSets client (daemonSetName env (nc_Name config) pool) = Some old"
      and got: "apiFaults client (apiCalls client)
                  (Get (Namespace client) (daemonSetName env (nc_Name config) pool)) = None"
      and computed: "placementOf env (nodeReqOf env filt) = Inr (affinityAnnotation, affinity)"
      and differs: "om_Annotations (pt_ObjectMeta (Template (ds_Spec old))) \<noteq> Some affinityAnnotation
                    \<or> Affinity (pt_Spec (Template (ds_Spec old))) \<noteq> affinity"
  shows "\<exists>upd r client'.
           deployNodeContainerForCluster env client config pool filt True
             = (errors_WithStack r, config, client') \<and>
           apiCalls client' = apiCalls client
             @ [(Get (Namespace client) (daemonSetName env (nc_Name config) pool), None),
                (Update (Namespace client) upd, r)] \<and>
           daemonSets client'
             = (if r = None then (daemonSets client)(om_Name (ds_ObjectMeta old) \<mapsto> upd)
                else daemonSets client) \<and>
           om_Annotations (pt_ObjectMeta (Template (ds_Spec upd))) = Some affinityAnnotation \<and>
           Affinity (pt_Spec (Template (ds_Spec upd))) = affinity \<and>
           ds_ObjectMeta upd = ds_ObjectMeta old \<and>
           Selector (ds_Spec upd) = Selector (ds_Spec old) \<and>
           UpdateStrategy (ds_Spec upd) = UpdateStrategy (ds_Spec old) \<and>
           om_Name (pt_ObjectMeta (Template (ds_Spec upd))) = om_Name (pt_ObjectMeta (Template (ds_Spec old))) \<and>
           om_Namespace (pt_ObjectMeta (Template (ds_Spec upd)))
             = om_Namespace (pt_ObjectMeta (Template (ds_Spec old))) \<and>
           om_Labels (pt_ObjectMeta (Template (ds_Spec upd)))
             = om_Labels (pt_ObjectMeta (Template (ds_Spec old))) \<and>
           Volumes (pt_Spec (Template (ds_Spec upd))) = Volumes (pt_Spec (Template (ds_Spec old))) \<and>
           ps_RestartPolicy (pt_Spec (Template (ds_Spec upd)))
             = ps_RestartPolicy (pt_Spec (Template (ds_Spec old))) \<and>
           HostNetwork (pt_Spec (Template (ds_Spec upd))) = HostNetwork (pt_Spec (Template (ds_Spec old))) \<and>
           Containers (pt_Spec (Template (ds_Spec upd))) = Containers (pt_Spec (Template (ds_Spec old)))"
proof -
  define dsName where "dsName = daemonSetName env (nc_Name config) pool"
  define client1 where "client1 = record_api (Get (Namespace client) dsName) None client"
  define upd where "upd = old\<lparr>ds_Spec := (ds_Spec old)\<lparr>Template := (Template (ds_Spec old))
       \<lparr>pt_ObjectMeta := (pt_ObjectMeta (Template (ds_Spec old)))\<lparr>om_Annotations := Some affinityAnnotation\<rparr>,
        pt_Spec := (pt_Spec (Template (ds_Spec old)))\<lparr>Affinity := affinity\<rparr>\<rparr>\<rparr>\<rparr>"
  obtain r where r: "fst (DaemonSets_Update upd client1) = r"
    "apiCalls (snd (DaemonSets_Update upd client1)) = apiCalls client1 @ [(Update (Namespace client1) upd, r)]"
    "daemonSets (snd (DaemonSets_Update upd client1))
       = (if r = None then (daemonSets client1)(om_Name (ds_ObjectMeta upd) \<mapsto> upd) else daemonSets client1)"
    using Update_calls[of upd client1] by blast
  have run: "deployNodeContainerForCluster env client config pool filt True
      = (errors_WithStack (fst (DaemonSets_Update upd client1)), config, snd (DaemonSets_Update upd client1))"
    using Get_found[OF got found] computed differs
    unfolding dsName_def[symmetric] client1_def[symmetric]
    by (auto simp: deployNodeContainerForCluster_def upd_def dsName_def Let_def split_beta)
  have 1: "deployNodeContainerForCluster env client config pool filt True
      = (errors_WithStack r, config, snd (DaemonSets_Update upd client1))"
    using run r(1) by simp
  have 2: "apiCalls (snd (DaemonSets_Update upd client1)) = apiCalls client
             @ [(Get (Namespace client) dsName, None), (Update (Namespace client) upd, r)]"
    using r(2) by (simp add: client1_def)
  have 3: "daemonSets (snd (DaemonSets_Update upd client1))
             = (if r = None then (daemonSets client)(om_Name (ds_ObjectMeta old) \<mapsto> upd)
                else daemonSets client)"
    using r(3) by (simp add: client1_def upd_def)
  have 4: "om_Annotations (pt_ObjectMeta (Template (ds_Spec upd))) = Some affinityAnnotation"
    "Affinity (pt_Spec (Template (ds_Spec upd))) = affinity"
    "ds_ObjectMeta upd = ds_ObjectMeta old"
    "Selector (ds_Spec upd) = Selector (ds_Spec old)"
    "UpdateStrategy (ds_Spec upd) = UpdateStrategy (ds_Spec old)"
    "om_Name (pt_ObjectMeta (Template (ds_Spec upd))) = om_Name (pt_ObjectMeta (Template (ds_Spec old)))"
    "om_Namespace (pt_ObjectMeta (Template (ds_Spec upd)))
       = om_Namespace (pt_ObjectMeta (Template (ds_Spec old)))"
    "om_Labels (pt_ObjectMeta (Template (ds_Spec upd)))
       = om_Labels (pt_ObjectMeta (Template (ds_Spec old)))"
    "Volumes (pt_Spec (Template (ds_Spec upd))) = Volumes (pt_Spec (Template (ds_Spec old)))"
    "ps_RestartPolicy (pt_Spec (Template (ds_Spec upd)))
       = ps_RestartPolicy (pt_Spec (Template (ds_Spec old)))"
    "HostNetwork (pt_Spec (Template (ds_Spec upd))) = HostNetwork (pt_Spec (Template (ds_Spec old)))"
    "Containers (pt_Spec (Template (ds_Spec upd))) = Containers (pt_Spec (Template (ds_Spec old)))"
    by (simp_all add: upd_def)
  show ?thesis
    unfolding dsName_def[symmetric]
    using 1 2 3 4
    by (intro exI[of _ upd] exI[of _ r] exI[of _ "snd (DaemonSets_Update upd client1)"]) simp
qed

theorem placementOnly_update_touches_two_fields_witness:
  "fst (deployNodeContainerForCluster envK clusterWithDaemon bsConfig ''pool1'' excludePool2 True) = None
   \<and> fst (snd (deployNodeContainerForCluster envK clusterWithDaemon bsConfig ''pool1'' excludePool2 True))
       = bsConfig
   \<and> map (\<lambda>kr. case fst kr of Get _ _ \<Rightarrow> ''Get'' | Update _ _ \<Rightarrow> ''Update'' | Create _ _ \<Rightarrow> ''Create'')
         (apiCalls (snd (snd (deployNodeContainerForCluster envK clusterWithDaemon bsConfig ''pool1''
                                excludePool2 True))))
       = [''Get'', ''Update'']
   \<and> Affinity (pt_Spec (Template (ds_Spec (the (daemonSets
         (snd (snd (deployNodeContainerForCluster envK clusterWithDaemon bsConfig ''pool1'' excludePool2 True)))
         ''node-container-big-sibling-pool-pool1'')))))
       = Some (affinityOf \<lparr>Key = ''tsuru.io/pool'', Operator = NodeSelectorOpNotIn, Values = [''pool2'']\<rparr>)
   \<and> Containers (pt_Spec (Template (ds_Spec (the (daemonSets
         (snd (snd (deployNodeContainerForCluster envK clusterWithDaemon bsConfig ''pool1'' excludePool2 True)))
         ''node-container-big-sibling-pool-pool1'')))))
       = Containers (pt_Spec (Template (ds_Spec daemonOfPool1)))
   \<and> Volumes (pt_Spec (Template (ds_Spec (the (daemonSets
         (snd (snd (deployNodeContainerForCluster envK clusterWithDaemon bsConfig ''pool1'' excludePool2 True)))
         ''node-container-big-sibling-pool-pool1'')))))
       = Volumes (pt_Spec (Template (ds_Spec daemonOfPool1)))"
proof -
  have found: "daemonSets clusterWithDaemon (daemonSetName envK (nc_Name bsConfig) ''pool1'') = Some daemonOfPool1"
    unfolding dsName_pool1 by (simp add: clusterWithDaemon_def)
  have got: "apiFaults clusterWithDaemon (apiCalls clusterWithDaemon)
               (Get (Namespace clusterWithDaemon) (daemonSetName envK (nc_Name bsConfig) ''pool1'')) = None"
    by (simp add: clusterWithDaemon_def)
  have differs: "om_Annotations (pt_ObjectMeta (Template (ds_Spec daemonOfPool1)))
        \<noteq> Some (Map.empty(alphaAffinityAnnotation \<mapsto> marshalText (affinityOf (nodeReqOf envK excludePool2))))
      \<or> Affinity (pt_Spec (Template (ds_Spec daemonOfPool1))) \<noteq> Some (affinityOf (nodeReqOf envK excludePool2))"
    unfolding daemonOfPool1_placement
    by (simp add: affinityOf_def nodeReqOf_def includePool1_def excludePool2_def)
  have name: "om_Name (ds_ObjectMeta daemonOfPool1) = ''node-container-big-sibling-pool-pool1''"
    by (simp add: daemonOfPool1_def desiredDaemonSet_def Let_def withDefaultBinds_def envK_def bsConfig_def)
  from placementOnly_update_touches_two_fields [OF found got placement_excludePool2 differs]
  obtain upd r client' where u:
    "deployNodeContainerForCluster envK clusterWithDaemon bsConfig ''pool1'' excludePool2 True
       = (errors_WithStack r, bsConfig, client')"
    "apiCalls client' = apiCalls clusterWithDaemon
             @ [(Get (Namespace clusterWithDaemon) (daemonSetName envK (nc_Name bsConfig) ''pool1''), None),
                (Update (Namespace clusterWithDaemon) upd, r)]"
    "daemonSets client'
             = (if r = None then (daemonSets clusterWithDaemon)(om_Name (ds_ObjectMeta daemonOfPool1) \<mapsto> upd)
                else daemonSets clusterWithDaemon)"
    "Affinity (pt_Spec (Template (ds_Spec upd))) = Some (affinityOf (nodeReqOf envK excludePool2))"
    "Volumes (pt_Spec (Template (ds_Spec upd))) = Volumes (pt_Spec (Template (ds_Spec daemonOfPool1)))"
    "Containers (pt_Spec (Template (ds_Spec upd))) = Containers (pt_Spec (Template (ds_Spec daemonOfPool1)))"
    by blast
  have ok: "fst (deployNodeContainerForCluster envK clusterWithDaemon bsConfig ''pool1'' excludePool2 True) = None"
    using found got differs placement_excludePool2 name
    by (auto simp: k8s_eval clusterWithDaemon_def)
  then have r: "r = None"
    using u(1) by (simp add: errors_WithStack_def)
  have req: "nodeReqOf envK excludePool2
      = \<lparr>Key = ''tsuru.io/pool'', Operator = NodeSelectorOpNotIn, Values = [''pool2'']\<rparr>"
    by (simp add: nodeReqOf_def excludePool2_def envK_def)
  show ?thesis
    using u r name req by (simp add: clusterWithDaemon_def errors_WithStack_def)
qed

subsection \<open>The node-selection requirement\<close>

text \<open>
  Claim C7. For every pool filter the requirement has the pool label as its key; with a
  non-empty \<open>Exclude\<close> its operator is "not in" and its values are \<open>Exclude\<close>, otherwise its
  operator is "in" and its values are \<open>Include\<close>. When the chosen values are empty, no
  affinity is built and the annotation map is empty; when they are not, the affinity is
  one required node-selector term holding this one requirement, and the annotation map
  holds its serialisation under the affinity annotation key (or the call fails with the
  serialisation error). On a cluster without the daemon object, the object created carries
  exactly this annotation map and this affinity.
\<close>

theorem node_selection_requirement:
  "(let nodeReq = nodeReqOf env filt in
      Key nodeReq = LabelNodePool env \<and>
      (if Exclude filt \<noteq> []
       then Operator nodeReq = NodeSelectorOpNotIn \<and> Values nodeReq = Exclude filt
       else Operator nodeReq = NodeSelectorOpIn \<and> Values nodeReq = Include filt) \<and>
      (if Values nodeReq = []
       then placementOf env nodeReq = Inr (Map.empty, None)
       else (case json_Marshal env (affinityOf nodeReq) of
               Inl err \<Rightarrow> placementOf env nodeReq = Inl err
             | Inr affinityData \<Rightarrow>
                 placementOf env nodeReq
                   = Inr (Map.empty(alphaAffinityAnnotation \<mapsto> affinityData), Some (affinityOf nodeReq)))) \<and>
      NodeAffinity (affinityOf nodeReq)
        = Some \<lparr>RequiredDuringSchedulingIgnoredDuringExecution =
                   Some \<lparr>NodeSelectorTerms = [\<lparr>MatchExpressions = [nodeReq]\<rparr>]\<rparr>,
                 PreferredDuringSchedulingIgnoredDuringExecution = None\<rparr>)
   \<and> (\<forall>affinityAnnotation affinity.
         placementOf env (nodeReqOf env filt) = Inr (affinityAnnotation, affinity) \<and>
         daemonSets client (daemonSetName env (nc_Name config) pool) = None \<and>
         apiFaults client (apiCalls client)
           (Get (Namespace client) (daemonSetName env (nc_Name config) pool)) = None
         \<longrightarrow> (\<exists>ds r. apiCalls (snd (snd (deployNodeContainerForCluster env client config pool filt placementOnly)))
                       = apiCalls client
                         @ [(Get (Namespace client) (daemonSetName env (nc_Name config) pool),
                             Some (NotFound (daemonSetName env (nc_Name config) pool))),
                            (Create (Namespace client) ds, r)] \<and>
                     om_Annotations (pt_ObjectMeta (Template (ds_Spec ds))) = Some affinityAnnotation \<and>
                     Affinity (pt_Spec (Template (ds_Spec ds))) = affinity))
   \<and> (\<forall>err. placementOf env (nodeReqOf env filt) = Inl err \<longrightarrow>
         fst (deployNodeContainerForCluster env client config pool filt placementOnly)
           = Some (WithStack err)
         \<or> (\<exists>e. fst (deployNodeContainerForCluster env client config pool filt placementOnly)
                 = Some (WithStack e) \<and>
                 fst (DaemonSets_Get (daemonSetName env (nc_Name config) pool) client) = Inl e))"
proof (intro conjI)
  show "let nodeReq = nodeReqOf env filt in
      Key nodeReq = LabelNodePool env \<and>
      (if Exclude filt \<noteq> []
       then Operator nodeReq = NodeSelectorOpNotIn \<and> Values nodeReq = Exclude filt
       else Operator nodeReq = NodeSelectorOpIn \<and> Values nodeReq = Include filt) \<and>
      (if Values nodeReq = []
       then placementOf env nodeReq = Inr (Map.empty, None)
       else (case json_Marshal env (affinityOf nodeReq) of
               Inl err \<Rightarrow> placementOf env nodeReq = Inl err
             | Inr affinityData \<Rightarrow>
                 placementOf env nodeReq
                   = Inr (Map.empty(alphaAffinityAnnotation \<mapsto> affinityData), Some (affinityOf nodeReq)))) \<and>
      NodeAffinity (affinityOf nodeReq)
        = Some \<lparr>RequiredDuringSchedulingIgnoredDuringExecution =
                   Some \<lparr>NodeSelectorTerms = [\<lparr>MatchExpressions = [nodeReq]\<rparr>]\<rparr>,
                 PreferredDuringSchedulingIgnoredDuringExecution = None\<rparr>"
    by (simp add: nodeReqOf_def placementOf_def affinityOf_def Let_def split: sum.splits)
next
  show "\<forall>affinityAnnotation affinity.
         placementOf env (nodeReqOf env filt) = Inr (affinityAnnotation, affinity) \<and>
         daemonSets client (daemonSetName env (nc_Name config) pool) = None \<and>
         apiFaults client (apiCalls client)
           (Get (Namespace client) (daemonSetName env (nc_Name config) pool)) = None
         \<longrightarrow> (\<exists>ds r. apiCalls (snd (snd (deployNodeContainerForCluster env client config pool filt placementOnly)))
                       = apiCalls client
                         @ [(Get (Namespace client) (daemonSetName env (nc_Name config) pool),
                             Some (NotFound (daemonSetName env (nc_Name config) pool))),
                            (Create (Namespace client) ds, r)] \<and>
                     om_Annotations (pt_ObjectMeta (Template (ds_Spec ds))) = Some affinityAnnotation \<and>
                     Affinity (pt_Spec (Template (ds_Spec ds))) = affinity)"
  proof (intro allI impI, elim conjE)
    fix affinityAnnotation affinity
    assume computed: "placementOf env (nodeReqOf env filt) = Inr (affinityAnnotation, affinity)"
      and absent: "daemonSets client (daemonSetName env (nc_Name config) pool) = None"
      and got: "apiFaults client (apiCalls client)
                  (Get (Namespace client) (daemonSetName env (nc_Name config) pool)) = None"
    define dsName where "dsName = daemonSetName env (nc_Name config) pool"
    define client1 where "client1 = record_api (Get (Namespace client) dsName) (Some (NotFound dsName)) client"
    define ds where "ds = desiredDaemonSet env client1 (withDefaultBinds env config) pool affinityAnnotation affinity"
    obtain r where r:
      "apiCalls (snd (DaemonSets_Create ds client1)) = apiCalls client1 @ [(Create (Namespace client1) ds, r)]"
      using Create_calls[of ds client1] by blast
    have "apiCalls (snd (snd (deployNodeContainerForCluster env client config pool filt placementOnly)))
            = apiCalls client @ [(Get (Namespace client) dsName, Some (NotFound dsName)),
                                 (Create (Namespace client) ds, r)]"
      using full_path_absent[OF absent got computed, of placementOnly] r
      by (simp add: Let_def dsName_def client1_def ds_def)
    moreover have "om_Annotations (pt_ObjectMeta (Template (ds_Spec ds))) = Some affinityAnnotation"
      and "Affinity (pt_Spec (Template (ds_Spec ds))) = affinity"
      by (simp_all add: ds_def desiredDaemonSet_def Let_def)
    ultimately show "\<exists>ds r. apiCalls (snd (snd (deployNodeContainerForCluster env client config pool filt placementOnly)))
                       = apiCalls client
                         @ [(Get (Namespace client) (daemonSetName env (nc_Name config) pool),
                             Some (NotFound (daemonSetName env (nc_Name config) pool))),
                            (Create (Namespace client) ds, r)] \<and>
                     om_Annotations (pt_ObjectMeta (Template (ds_Spec ds))) = Some affinityAnnotation \<and>
                     Affinity (pt_Spec (Template (ds_Spec ds))) = affinity"
      unfolding dsName_def by blast
  qed
next
  show "\<forall>err. placementOf env (nodeReqOf env filt) = Inl err \<longrightarrow>
         fst (deployNodeContainerForCluster env client config pool filt placementOnly)
           = Some (WithStack err)
         \<or> (\<exists>e. fst (deployNodeContainerForCluster env client config pool filt placementOnly)
                 = Some (WithStack e) \<and>
                 fst (DaemonSets_Get (daemonSetName env (nc_Name config) pool) client) = Inl e)"
    by (auto simp: deployNodeContainerForCluster_def Let_def split_beta split: sum.splits)
qed

theorem node_selection_requirement_witness:
  "nodeReqOf envK excludePool2
     = \<lparr>Key = ''tsuru.io/pool'', Operator = NodeSelectorOpNotIn, Values = [''pool2'']\<rparr>
   \<and> nodeReqOf envK includePool1
     = \<lparr>Key = ''tsuru.io/pool'', Operator = NodeSelectorOpIn, Values = [''pool1'']\<rparr>
   \<and> placementOf envK (nodeReqOf envK \<lparr>Include = [], Exclude = []\<rparr>) = Inr (Map.empty, None)
   \<and> map (\<lambda>kr. case fst kr of Get _ _ \<Rightarrow> ''Get'' | Update _ _ \<Rightarrow> ''Update'' | Create _ _ \<Rightarrow> ''Create'')
         (apiCalls (snd (snd (deployNodeContainerForCluster envK oneCluster bsConfig ''pool1''
                                excludePool2 False))))
       = [''Get'', ''Create'']
   \<and> Affinity (pt_Spec (Template (ds_Spec (the (daemonSets
         (snd (snd (deployNodeContainerForCluster envK oneCluster bsConfig ''pool1'' excludePool2 False)))
         ''node-container-big-sibling-pool-pool1'')))))
       = Some (affinityOf \<lparr>Key = ''tsuru.io/pool'', Operator = NodeSelectorOpNotIn, Values = [''pool2'']\<rparr>)
   \<and> om_Annotations (pt_ObjectMeta (Template (ds_Spec (the (daemonSets
         (snd (snd (deployNodeContainerForCluster envK oneCluster bsConfig ''pool1'' excludePool2 False)))
         ''node-container-big-sibling-pool-pool1'')))))
       = Some [alphaAffinityAnnotation \<mapsto> ''tsuru.io/pool NotIn pool2 '']"
proof -
  have req: "nodeReqOf envK excludePool2
      = \<lparr>Key = ''tsuru.io/pool'', Operator = NodeSelectorOpNotIn, Values = [''pool2'']\<rparr>"
    "nodeReqOf envK includePool1
      = \<lparr>Key = ''tsuru.io/pool'', Operator = NodeSelectorOpIn, Values = [''pool1'']\<rparr>"
    by (simp_all add: nodeReqOf_def excludePool2_def includePool1_def envK_def)
  have none: "placementOf envK (nodeReqOf envK \<lparr>Include = [], Exclude = []\<rparr>) = Inr (Map.empty, None)"
    by (simp add: placementOf_def nodeReqOf_def)
  have mtext: "marshalText (affinityOf \<lparr>Key = ''tsuru.io/pool'', Operator = NodeSelectorOpNotIn, Values = [''pool2'']\<rparr>)
      = ''tsuru.io/pool NotIn pool2 ''"
    by (simp add: marshalText_def affinityOf_def)
  have absent: "daemonSets oneCluster (daemonSetName envK (nc_Name bsConfig) ''pool1'') = None"
    and got: "apiFaults oneCluster (apiCalls oneCluster)
               (Get (Namespace oneCluster) (daemonSetName envK (nc_Name bsConfig) ''pool1'')) = None"
    by (simp_all add: oneCluster_def)
  have run: "deployNodeContainerForCluster envK oneCluster bsConfig ''pool1'' excludePool2 False
     = (let dsName = daemonSetName envK (nc_Name bsConfig) ''pool1'';
            client1 = record_api (Get (Namespace oneCluster) dsName) (Some (NotFound dsName)) oneCluster;
            config1 = withDefaultBinds envK bsConfig;
            ds = desiredDaemonSet envK client1 config1 ''pool1''
                   (Map.empty(alphaAffinityAnnotation \<mapsto> marshalText (affinityOf (nodeReqOf envK excludePool2))))
                   (Some (affinityOf (nodeReqOf envK excludePool2)))
        in (errors_WithStack (fst (DaemonSets_Create ds client1)), config1,
            snd (DaemonSets_Create ds client1)))"
    using absent got placement_excludePool2 by (rule full_path_absent)
  have name: "om_Name (ds_ObjectMeta (desiredDaemonSet envK cl cfg ''pool1'' ann aff))
      = daemonSetName envK (nc_Name cfg) ''pool1''" for cl cfg ann aff
    by (simp add: desiredDaemonSet_def Let_def)
  have wname: "nc_Name (withDefaultBinds envK bsConfig) = ''big-sibling''"
    by (simp add: withDefaultBinds_def bsConfig_def)
  have dn: "daemonSetName envK ''big-sibling'' ''pool1'' = ''node-container-big-sibling-pool-pool1''"
    by (simp add: envK_def)
  have calls: "map (\<lambda>kr. case fst kr of Get _ _ \<Rightarrow> ''Get'' | Update _ _ \<Rightarrow> ''Update'' | Create _ _ \<Rightarrow> ''Create'')
         (apiCalls (snd (snd (deployNodeContainerForCluster envK oneCluster bsConfig ''pool1''
                                excludePool2 False))))
       = [''Get'', ''Create'']"
    unfolding run
    by (simp add: Let_def DaemonSets_Create_def record_api_def oneCluster_def name wname dn
             split: option.splits)
  have stored: "daemonSets
         (snd (snd (deployNodeContainerForCluster envK oneCluster bsConfig ''pool1'' excludePool2 False)))
         ''node-container-big-sibling-pool-pool1''
      = Some (desiredDaemonSet envK
                (record_api (Get ''tsuru'' ''node-container-big-sibling-pool-pool1'')
                   (Some (NotFound ''node-container-big-sibling-pool-pool1'')) oneCluster)
                (withDefaultBinds envK bsConfig) ''pool1''
                (Map.empty(alphaAffinityAnnotation \<mapsto> marshalText (affinityOf (nodeReqOf envK excludePool2))))
                (Some (affinityOf (nodeReqOf envK excludePool2))))"
    unfolding run dsName_pool1
    by (simp add: Let_def DaemonSets_Create_def record_api_def oneCluster_def name wname dn)
  have aff: "Affinity (pt_Spec (Template (ds_Spec (desiredDaemonSet envK cl cfg p ann a)))) = a"
    and ann: "om_Annotations (pt_ObjectMeta (Template (ds_Spec (desiredDaemonSet envK cl cfg p ann a)))) = Some ann"
    for cl cfg p ann a
    by (simp_all add: desiredDaemonSet_def Let_def)
  show ?thesis
    using node_selection_requirement [of envK excludePool2 oneCluster bsConfig "''pool1''" False]
          req none calls
    unfolding stored
    by (simp add: aff ann mtext)
qed

subsection \<open>The configuration after the call\<close>

text \<open>
  The configuration behind the pointer either stays as it was or has the three default
  binds appended; for a name other than the default system-monitor name it stays as it
  was.
\<close>

lemma config_after_call:
  "fst (snd (deployNodeContainerForCluster env client config pool filt placementOnly)) = config
   \<or> fst (snd (deployNodeContainerForCluster env client config pool filt placementOnly))
        = withDefaultBinds env config"
  by (auto simp: deployNodeContainerForCluster_def Let_def split_beta
           split: sum.splits option.splits if_splits)

lemma config_kept_for_other_names:
  "nc_Name config \<noteq> BsDefaultName env \<Longrightarrow>
   fst (snd (deployNodeContainerForCluster env client config pool filt placementOnly)) = config"
  using config_after_call[of env client config pool filt placementOnly]
  by (auto simp: withDefaultBinds_def)

lemma full_path_config:
  assumes "daemonSets client (daemonSetName env (nc_Name config) pool) = None"
      and "apiFaults client (apiCalls client)
             (Get (Namespace client) (daemonSetName env (nc_Name config) pool)) = None"
      and "placementOf env (nodeReqOf env filt) = Inr (affinityAnnotation, affinity)"
  shows "fst (snd (deployNodeContainerForCluster env client config pool filt placementOnly))
           = withDefaultBinds env config"
  using full_path_absent[OF assms, of placementOnly] by (simp add: Let_def)


text \<open>
  Claim C8 says the input configuration is the same before and after
  \<open>DeployNodeContainer\<close>, also for the default system-monitor name. The code stores the
  extended bind list back through the \<open>config\<close> pointer (lines 106 to 112). Evaluated on
  the configuration \<open>big-sibling\<close> with one bind and a cluster that has no daemon object yet:
  the call succeeds and the configuration's \<open>Binds\<close> has four entries afterwards; with two
  clusters registered the three binds are appended once per cluster, seven entries.
\<close>

theorem DeployNodeContainer_appends_binds_to_config:
  "Binds (HostConfig bsConfig) = [''/proc:/prochost:ro'']
   \<and> fst (DeployNodeContainer envK [oneCluster] bsConfig ''pool1'' includePool1 False) = None
   \<and> Binds (HostConfig (fst (snd (DeployNodeContainer envK [oneCluster] bsConfig ''pool1'' includePool1 False))))
       = [''/proc:/prochost:ro'',
          ''/var/log:/var/log:rw'',
          ''/var/lib/docker/containers:/var/lib/docker/containers:ro'',
          ''/mnt/sda1/var/lib/docker/containers:/mnt/sda1/var/lib/docker/containers:ro'']
   \<and> Binds (HostConfig (fst (snd (DeployNodeContainer envK [oneCluster, oneCluster] bsConfig ''pool1''
                                     includePool1 False))))
       = [''/proc:/prochost:ro'',
          ''/var/log:/var/log:rw'',
          ''/var/lib/docker/containers:/var/lib/docker/containers:ro'',
          ''/mnt/sda1/var/lib/docker/containers:/mnt/sda1/var/lib/docker/containers:ro'',
          ''/var/log:/var/log:rw'',
          ''/var/lib/docker/containers:/var/lib/docker/containers:ro'',
          ''/mnt/sda1/var/lib/docker/containers:/mnt/sda1/var/lib/docker/containers:ro'']"
proof -
  let ?c1 = "withDefaultBinds envK bsConfig"
  let ?c2 = "withDefaultBinds envK ?c1"
  have absent: "daemonSets oneCluster (daemonSetName envK (nc_Name cfg) ''pool1'') = None"
    and got: "apiFaults oneCluster (apiCalls oneCluster)
               (Get (Namespace oneCluster) (daemonSetName envK (nc_Name cfg) ''pool1'')) = None"
    for cfg :: nodeContainerConfig
    by (simp_all add: oneCluster_def)
  have run: "deployNodeContainerForCluster envK oneCluster cfg ''pool1'' includePool1 False
     = (let dsName = daemonSetName envK (nc_Name cfg) ''pool1'';
            client1 = record_api (Get (Namespace oneCluster) dsName) (Some (NotFound dsName)) oneCluster;
            config1 = withDefaultBinds envK cfg;
            ds = desiredDaemonSet envK client1 config1 ''pool1''
                   (Map.empty(alphaAffinityAnnotation \<mapsto> marshalText (affinityOf (nodeReqOf envK includePool1))))
                   (Some (affinityOf (nodeReqOf envK includePool1)))
        in (errors_WithStack (fst (DaemonSets_Create ds client1)), config1,
            snd (DaemonSets_Create ds client1)))" for cfg
    using absent got placement_includePool1 by (rule full_path_absent)
  have created: "fst (DaemonSets_Create ds (record_api k r oneCluster)) = None" for ds k r
    by (simp add: DaemonSets_Create_def record_api_def oneCluster_def)
  have step: "deployNodeContainerForCluster envK oneCluster cfg ''pool1'' includePool1 False
      = (None, withDefaultBinds envK cfg,
         snd (DaemonSets_Create
            (desiredDaemonSet envK
               (record_api (Get (Namespace oneCluster) (daemonSetName envK (nc_Name cfg) ''pool1''))
                  (Some (NotFound (daemonSetName envK (nc_Name cfg) ''pool1''))) oneCluster)
               (withDefaultBinds envK cfg) ''pool1''
               (Map.empty(alphaAffinityAnnotation \<mapsto> marshalText (affinityOf (nodeReqOf envK includePool1))))
               (Some (affinityOf (nodeReqOf envK includePool1))))
            (record_api (Get (Namespace oneCluster) (daemonSetName envK (nc_Name cfg) ''pool1''))
                  (Some (NotFound (daemonSetName envK (nc_Name cfg) ''pool1''))) oneCluster)))" for cfg
    unfolding run by (simp add: Let_def created errors_WithStack_def)
  have one: "DeployNodeContainer envK [oneCluster] bsConfig ''pool1'' includePool1 False
      = (None, ?c1, snd (snd (DeployNodeContainer envK [oneCluster] bsConfig ''pool1'' includePool1 False)))"
    by (simp add: DeployNodeContainer_def forEachCluster_def step)
  have two: "fst (snd (DeployNodeContainer envK [oneCluster, oneCluster] bsConfig ''pool1'' includePool1 False))
      = ?c2"
    by (simp add: DeployNodeContainer_def forEachCluster_def step)
  have b0: "Binds (HostConfig bsConfig) = [''/proc:/prochost:ro'']"
    by (simp add: bsConfig_def)
  have b1: "Binds (HostConfig ?c1)
       = [''/proc:/prochost:ro'',
          ''/var/log:/var/log:rw'',
          ''/var/lib/docker/containers:/var/lib/docker/containers:ro'',
          ''/mnt/sda1/var/lib/docker/containers:/mnt/sda1/var/lib/docker/containers:ro'']"
    by (simp add: withDefaultBinds_def bsConfig_def envK_def)
  have b2: "Binds (HostConfig ?c2)
       = [''/proc:/prochost:ro'',
          ''/var/log:/var/log:rw'',
          ''/var/lib/docker/containers:/var/lib/docker/containers:ro'',
          ''/mnt/sda1/var/lib/docker/containers:/mnt/sda1/var/lib/docker/containers:ro'',
          ''/var/log:/var/log:rw'',
          ''/var/lib/docker/containers:/var/lib/docker/containers:ro'',
          ''/mnt/sda1/var/lib/docker/containers:/mnt/sda1/var/lib/docker/containers:ro'']"
    by (simp add: withDefaultBinds_def bsConfig_def envK_def)
  have r1: "fst (DeployNodeContainer envK [oneCluster] bsConfig ''pool1'' includePool1 False) = None"
    and c1: "fst (snd (DeployNodeContainer envK [oneCluster] bsConfig ''pool1'' includePool1 False)) = ?c1"
    using one by (metis fst_conv, metis fst_conv snd_conv)
  show ?thesis
    unfolding c1 two using b0 b1 b2 r1 by simp
qed

end
